theory Spec2Isabelle
  imports Main
begin

section \<open>Python values\<close>

text \<open>
  The transcript text is a Python \<open>str\<close>: a sequence of Unicode code points. It is kept
  as a list of code points because \<open>str.strip()\<close> depends on Unicode white space.
  Identifiers, status words and messages are kept as \<open>string\<close>.
\<close>

type_synonym py_str = "nat list"

text \<open>The code points for which \<open>str.isspace()\<close> holds (the ones \<open>str.strip()\<close> removes).\<close>

definition py_isspace :: "nat \<Rightarrow> bool" where
  "py_isspace c =
     ((9 \<le> c \<and> c \<le> 13) \<or> (28 \<le> c \<and> c \<le> 32) \<or> c = 133 \<or> c = 160 \<or> c = 5760
      \<or> (8192 \<le> c \<and> c \<le> 8202) \<or> c = 8232 \<or> c = 8233 \<or> c = 8239 \<or> c = 8287
      \<or> c = 12288)"

definition py_strip :: "py_str \<Rightarrow> py_str" where
  "py_strip s = rev (dropWhile py_isspace (rev (dropWhile py_isspace s)))"

text \<open>The text is empty or consists only of white space.\<close>

definition blank :: "py_str \<Rightarrow> bool" where
  "blank s = list_all py_isspace s"

text \<open>
  The exceptions that the code raises or may receive from the transcript processor, the
  JSON library and the store; \<open>OtherException cls m\<close> is an exception of any other
  class \<open>cls\<close> derived from \<open>Exception\<close>, with the message \<open>m\<close>; \<open>exception_str\<close> is
  \<open>str(e)\<close>.
\<close>

datatype py_exception =
    ValueError string
  | TypeError string
  | AttributeError string
  | OtherException string string
  | CancelledError string
  | KeyboardInterrupt string
  | SystemExit string

fun exception_str :: "py_exception \<Rightarrow> string" where
  "exception_str (ValueError m) = m"
| "exception_str (TypeError m) = m"
| "exception_str (AttributeError m) = m"
| "exception_str (OtherException cls m) = m"
| "exception_str (CancelledError m) = m"
| "exception_str (KeyboardInterrupt m) = m"
| "exception_str (SystemExit m) = m"

text \<open>
  \<open>isinstance(e, Exception)\<close>, which is what \<open>except Exception\<close> asks:
  \<open>asyncio.CancelledError\<close>, \<open>KeyboardInterrupt\<close> and \<open>SystemExit\<close> derive from
  \<open>BaseException\<close> only.
\<close>

fun is_Exception :: "py_exception \<Rightarrow> bool" where
  "is_Exception (CancelledError m) = False"
| "is_Exception (KeyboardInterrupt m) = False"
| "is_Exception (SystemExit m) = False"
| "is_Exception e = True"

section \<open>SummaryProcessor\<close>

text \<open>
  The keyword arguments with which \<open>SummaryProcessor.process_transcript\<close> calls
  \<open>TranscriptProcessor.process_transcript\<close>. The transcript processor (chunking and the
  calls of the generation backend) is a parameter: a function from these arguments and
  the state \<open>'w\<close> of the backend to an exception or the pair
  \<open>(num_chunks, all_json_data)\<close>, and the new state.
\<close>

record tp_call =
  tp_text :: py_str
  tp_model :: string
  tp_model_name :: string
  tp_chunk_size :: int
  tp_overlap :: int
  tp_custom_prompt :: string

type_synonym ('d, 'w) transcript_processor =
  "tp_call \<Rightarrow> 'w \<Rightarrow> (py_exception + int \<times> 'd list) \<times> 'w"

definition default_prompt :: string where
  "default_prompt = ''Generate a summary of the meeting transcript.''"

text \<open>\<open>custom_prompt or "Generate a summary ..."\<close>: \<open>None\<close> and the empty string are falsy.\<close>

definition prompt_or_default :: "string option \<Rightarrow> string" where
  "prompt_or_default custom_prompt =
     (case custom_prompt of
        None \<Rightarrow> default_prompt
      | Some p \<Rightarrow> if p = [] then default_prompt else p)"

definition none_le_int_msg :: string where
  "none_le_int_msg =
     CHR 0x27 # ''<=' not supported between instances of 'NoneType' and 'int'' @ [CHR 0x27]"

definition none_lt_int_msg :: string where
  "none_lt_int_msg =
     CHR 0x27 # ''<' not supported between instances of 'NoneType' and 'int'' @ [CHR 0x27]"

text \<open>
  \<open>SummaryProcessor.process_transcript\<close>. The request model declares \<open>chunk_size\<close> and
  \<open>overlap\<close> as \<open>Optional[int]\<close>, and the background run passes them on as they are, so
  they are \<open>int option\<close> here; comparing \<open>None\<close> with \<open>0\<close> raises \<open>TypeError\<close>. The
  \<open>or\<close> of the second check is short-circuit: \<open>overlap < 0\<close> is evaluated only when
  \<open>chunk_size <= 0\<close> is false.
\<close>

definition process_transcript ::
  "('d, 'w) transcript_processor \<Rightarrow> py_str \<Rightarrow> string \<Rightarrow> string \<Rightarrow> int option \<Rightarrow> int option
     \<Rightarrow> string option \<Rightarrow> 'w \<Rightarrow> (py_exception + int \<times> 'd list) \<times> 'w" where
  "process_transcript transcript_processor text model model_name chunk_size overlap
       custom_prompt w =
     (if py_strip text = [] then (Inl (ValueError ''Transcript text is empty''), w)
      else case chunk_size of
        None \<Rightarrow> (Inl (TypeError none_le_int_msg), w)
      | Some cs \<Rightarrow>
          if cs \<le> 0 then (Inl (ValueError ''Invalid chunk_size or overlap''), w)
          else
            (case overlap of
               None \<Rightarrow> (Inl (TypeError none_lt_int_msg), w)
             | Some ov \<Rightarrow>
                 if ov < 0 then (Inl (ValueError ''Invalid chunk_size or overlap''), w)
                 else
                   let ov' = (if ov \<ge> cs then cs - 1 else ov)
                   in transcript_processor
                        \<lparr>tp_text = text, tp_model = model, tp_model_name = model_name,
                         tp_chunk_size = cs, tp_overlap = ov',
                         tp_custom_prompt = prompt_or_default custom_prompt\<rparr> w))"

text \<open>
  A transcript processor for the examples: it calls no backend, counts its calls in the
  state and answers with the overlap it was given as the only chunk datum.
\<close>

definition echo_processor :: "(int, nat) transcript_processor" where
  "echo_processor c w = (Inr (1, [tp_overlap c]), Suc w)"

section \<open>The store\<close>

text \<open>
  The table \<open>summary_processes\<close> of \<open>DatabaseManager._legacy_init_db\<close> holds the job
  records. Its primary key is \<open>meeting_id\<close>; the columns kept here are the ones that the
  code reads and writes (\<open>status\<close> is \<open>NOT NULL\<close>, \<open>error\<close> and \<open>result\<close> may be
  \<open>NULL\<close>). The time stamps, counters and \<open>metadata\<close> are not touched by any code at hand.
  The table is a list of rows, so that a second row for a meeting is expressible and its
  absence is a property to prove.
\<close>

record process_row =
  sp_meeting_id :: string
  sp_status :: string
  sp_error :: "string option"
  sp_result :: "string option"

text \<open>The table \<open>transcript_chunks\<close>, also keyed by \<open>meeting_id\<close>.\<close>

record transcript_row =
  tc_meeting_id :: string
  tc_transcript_text :: py_str
  tc_model :: string
  tc_model_name :: string
  tc_chunk_size :: "int option"
  tc_overlap :: "int option"

text \<open>
  The writing calls that the application makes on the \<open>DatabaseManager\<close>, with their
  arguments: \<open>UpdateProcess process_id status error result\<close> is
  \<open>db.update_process(process_id, status=.., error=.., result=..)\<close>, an argument that is
  not given being \<open>None\<close>.
\<close>

datatype db_write =
    CreateProcess string
  | SaveTranscript string py_str string string "int option" "int option"
  | UpdateProcess string string "string option" "string option"

record db_state =
  summary_processes :: "process_row list"
  transcript_chunks :: "transcript_row list"
  writes :: "db_write list"

definition empty_db :: db_state where
  "empty_db = \<lparr>summary_processes = [], transcript_chunks = [], writes = []\<rparr>"

definition find_process :: "string \<Rightarrow> process_row list \<Rightarrow> process_row option" where
  "find_process m rows = find (\<lambda>r. sp_meeting_id r = m) rows"

fun upsert_process :: "process_row \<Rightarrow> process_row list \<Rightarrow> process_row list" where
  "upsert_process row [] = [row]"
| "upsert_process row (r # rs) =
     (if sp_meeting_id r = sp_meeting_id row then row # rs else r # upsert_process row rs)"

fun upsert_transcript :: "transcript_row \<Rightarrow> transcript_row list \<Rightarrow> transcript_row list" where
  "upsert_transcript row [] = [row]"
| "upsert_transcript row (r # rs) =
     (if tc_meeting_id r = tc_meeting_id row then row # rs else r # upsert_transcript row rs)"

text \<open>
  Modelled from the spec: \<open>DatabaseManager.create_process\<close> is not in the source at hand.
  The spec has \<open>create(meeting_id) \<rightarrow> job_id\<close> create a job record in \<open>pending\<close>, and a
  new run for the same meeting overwrite the prior job state of that meeting. The table
  has no identifying column besides \<open>meeting_id\<close>, so the identifier returned is the
  meeting identifier. A pending job has neither result nor error.
\<close>

definition create_process :: "string \<Rightarrow> db_state \<Rightarrow> string \<times> db_state" where
  "create_process meeting_id db =
     (meeting_id,
      db\<lparr>summary_processes :=
            upsert_process
              \<lparr>sp_meeting_id = meeting_id, sp_status = ''pending'', sp_error = None,
               sp_result = None\<rparr> (summary_processes db),
         writes := writes db @ [CreateProcess meeting_id]\<rparr>)"

text \<open>
  Modelled from the spec: \<open>DatabaseManager.update_process\<close> is not in the source at hand.
  The spec has \<open>update(job_id, status, fields\<dots>)\<close>, atomic, the last writer winning: the
  record of that job takes the status and the fields that are given, the other fields
  stay; without such a record nothing changes.
\<close>

definition update_process ::
  "string \<Rightarrow> string \<Rightarrow> string option \<Rightarrow> string option \<Rightarrow> db_state \<Rightarrow> db_state" where
  "update_process process_id status error result db =
     db\<lparr>summary_processes :=
          map (\<lambda>r. if sp_meeting_id r = process_id
                    then r\<lparr>sp_status := status,
                           sp_error := (case error of None \<Rightarrow> sp_error r | Some e \<Rightarrow> Some e),
                           sp_result := (case result of None \<Rightarrow> sp_result r | Some x \<Rightarrow> Some x)\<rparr>
                    else r)
              (summary_processes db),
        writes := writes db @ [UpdateProcess process_id status error result]\<rparr>"

text \<open>
  Modelled from the spec: \<open>DatabaseManager.save_transcript\<close> is not in the source at hand,
  and the spec says only that the transcript is kept as submitted. It stores the text
  and the parameters of the submission in \<open>transcript_chunks\<close>, one row for a meeting.
\<close>

definition save_transcript ::
  "string \<Rightarrow> py_str \<Rightarrow> string \<Rightarrow> string \<Rightarrow> int option \<Rightarrow> int option \<Rightarrow> db_state \<Rightarrow> db_state" where
  "save_transcript meeting_id text model model_name chunk_size overlap db =
     db\<lparr>transcript_chunks :=
          upsert_transcript
            \<lparr>tc_meeting_id = meeting_id, tc_transcript_text = text, tc_model = model,
             tc_model_name = model_name, tc_chunk_size = chunk_size, tc_overlap = overlap\<rparr>
            (transcript_chunks db),
        writes := writes db @ [SaveTranscript meeting_id text model model_name chunk_size overlap]\<rparr>"

text \<open>
  A row as the Python \<open>dict\<close> that a read hands to the caller: column names with their
  values, \<open>None\<close> for \<open>NULL\<close>.
\<close>

type_synonym py_dict = "(string \<times> string option) list"

definition row_dict :: "process_row \<Rightarrow> py_dict" where
  "row_dict r =
     [(''meeting_id'', Some (sp_meeting_id r)), (''status'', Some (sp_status r)),
      (''error'', sp_error r), (''result'', sp_result r)]"

text \<open>
  Modelled from the spec: \<open>DatabaseManager.get_transcript_data\<close> is not in the source at
  hand. The spec has \<open>read(job_id) \<rightarrow> Job | NotFound\<close>: the record of the job, or nothing.
  It writes nothing.
\<close>

definition get_transcript_data :: "string \<Rightarrow> db_state \<Rightarrow> py_dict option" where
  "get_transcript_data meeting_id db =
     map_option row_dict (find_process meeting_id (summary_processes db))"

text \<open>
  Modelled from the spec: the spec has a persistence failure, \<open>StoreError\<close>, which is
  propagated. What makes the store fail is outside of the program, so it is a parameter:
  for a call and the state of the store, the exception with which the store answers the
  call, if it does. A call that fails changes no table; it is recorded among the calls
  made. The parameter governs the updates of the background run, whose handling of
  exceptions is at stake; the submit path and the read are taken on a store that answers.
\<close>

type_synonym store_fault = "db_write \<Rightarrow> db_state \<Rightarrow> py_exception option"

definition reliable :: store_fault where
  "reliable call db = None"

definition db_update_process ::
  "store_fault \<Rightarrow> string \<Rightarrow> string \<Rightarrow> string option \<Rightarrow> string option \<Rightarrow> db_state
     \<Rightarrow> (py_exception + unit) \<times> db_state" where
  "db_update_process fault process_id status error result db =
     (case fault (UpdateProcess process_id status error result) db of
        None \<Rightarrow> (Inr (), update_process process_id status error result db)
      | Some e \<Rightarrow>
          (Inl e, db\<lparr>writes := writes db @ [UpdateProcess process_id status error result]\<rparr>))"

section \<open>The endpoints\<close>

text \<open>The request model \<open>TranscriptRequest\<close>; it has no validators.\<close>

record transcript_request =
  req_text :: py_str
  req_model :: string
  req_model_name :: string
  req_meeting_id :: string
  req_chunk_size :: "int option"
  req_overlap :: "int option"
  req_custom_prompt :: "string option"

text \<open>
  The \<open>except Exception as e\<close> clause of \<open>process_transcript_background\<close>: an exception
  of class \<open>Exception\<close> is answered with \<open>update_process(process_id, status="failed",
  error=str(e))\<close>, and what that call raises leaves the task, since nothing is around
  it; any other exception is not caught.
\<close>

definition background_except ::
  "store_fault \<Rightarrow> string \<Rightarrow> py_exception \<Rightarrow> db_state \<Rightarrow> (py_exception + unit) \<times> db_state" where
  "background_except fault process_id e db =
     (if is_Exception e
      then db_update_process fault process_id ''failed'' (Some (exception_str e)) None db
      else (Inl e, db))"

text \<open>
  \<open>process_transcript_background\<close>. \<open>json.dumps\<close> is a parameter; it may raise, inside
  the \<open>try\<close>, as the two calls of \<open>update_process\<close> there may. The first component of
  the result is \<open>Inl e\<close> when the exception \<open>e\<close> leaves the task and \<open>Inr ()\<close> when the
  task returns. An empty list is falsy.
\<close>

definition process_transcript_background ::
  "store_fault \<Rightarrow> ('d, 'w) transcript_processor \<Rightarrow> ('d list \<Rightarrow> py_exception + string)
     \<Rightarrow> string \<Rightarrow> transcript_request \<Rightarrow> 'w \<times> db_state
     \<Rightarrow> (py_exception + unit) \<times> 'w \<times> db_state" where
  "process_transcript_background fault transcript_processor json_dumps process_id transcript st =
     (case st of (w, db) \<Rightarrow>
        (case process_transcript transcript_processor (req_text transcript)
                (req_model transcript) (req_model_name transcript) (req_chunk_size transcript)
                (req_overlap transcript) (req_custom_prompt transcript) w of
           (Inr (num_chunks, all_json_data), w') \<Rightarrow>
             (case (if all_json_data \<noteq> [] then
                      (case json_dumps all_json_data of
                         Inr s \<Rightarrow>
                           db_update_process fault process_id ''completed'' None (Some s) db
                       | Inl e \<Rightarrow> (Inl e, db))
                    else
                      db_update_process fault process_id ''failed''
                        (Some ''No chunks processed'') None db) of
                (Inr u, db') \<Rightarrow> (Inr (), w', db')
              | (Inl e, db') \<Rightarrow>
                  (case background_except fault process_id e db' of
                     (r, db'') \<Rightarrow> (r, w', db'')))
         | (Inl e, w') \<Rightarrow>
             (case background_except fault process_id e db of
                (r, db') \<Rightarrow> (r, w', db'))))"

text \<open>
  \<open>process_transcript_api\<close>. The background tasks are the list of the calls scheduled
  with \<open>add_task\<close>, run after the response has been sent.
\<close>

record api_response =
  resp_message :: string
  resp_process_id :: string

definition process_transcript_api ::
  "transcript_request \<Rightarrow> db_state \<times> (string \<times> transcript_request) list
     \<Rightarrow> api_response \<times> db_state \<times> (string \<times> transcript_request) list" where
  "process_transcript_api transcript st =
     (case st of (db, background_tasks) \<Rightarrow>
        (case create_process (req_meeting_id transcript) db of (process_id, db1) \<Rightarrow>
           let db2 = save_transcript (req_meeting_id transcript) (req_text transcript)
                       (req_model transcript) (req_model_name transcript)
                       (req_chunk_size transcript) (req_overlap transcript) db1
           in (\<lparr>resp_message = ''Processing started'', resp_process_id = process_id\<rparr>,
               db2, background_tasks @ [(process_id, transcript)])))"

text \<open>\<open>str.lower()\<close> on the ASCII letters, which is what a status word is made of.\<close>

definition py_lower_char :: "char \<Rightarrow> char" where
  "py_lower_char c =
     (case map_of (zip ''ABCDEFGHIJKLMNOPQRSTUVWXYZ'' ''abcdefghijklmnopqrstuvwxyz'') c of
        Some l \<Rightarrow> l
      | None \<Rightarrow> c)"

definition py_lower :: "string \<Rightarrow> string" where
  "py_lower s = map py_lower_char s"

text \<open>
  What leaves an endpoint instead of a response: an \<open>HTTPException\<close> with its status code
  and detail, or another exception, which nothing handles.
\<close>

datatype api_error = HTTPException nat string | Unhandled py_exception

record 'j summary_response =
  sum_status :: string
  sum_meeting_id :: string
  sum_data :: "'j option"

text \<open>
  \<open>get_summary\<close>. \<open>json.loads\<close> is a parameter, and so is the rendering of the
  \<open>JSONResponse\<close>: \<open>render_error data\<close> is the exception that rendering \<open>data\<close> raises, if
  it does (the response is rendered as strict JSON, which has no \<open>NaN\<close> and no
  \<open>Infinity\<close>, while \<open>json.loads\<close> accepts both); the status, the meeting identifier and
  \<open>null\<close> render. \<open>not result\<close> holds of \<open>None\<close> and of the empty \<open>dict\<close>;
  \<open>result.get("status", "unknown")\<close> is the default only when the key is absent, and
  \<open>.lower()\<close> of \<open>None\<close> raises; \<open>result.get("result")\<close> is falsy when the key is absent,
  the value \<open>None\<close> or the empty string. The state is returned as it was read.
\<close>

definition none_lower_msg :: string where
  "none_lower_msg =
     CHR 0x27 # ''NoneType' object has no attribute 'lower'' @ [CHR 0x27]"

definition get_summary ::
  "(string \<Rightarrow> py_exception + 'j) \<Rightarrow> ('j \<Rightarrow> py_exception option) \<Rightarrow> string \<Rightarrow> db_state
     \<Rightarrow> (api_error + 'j summary_response) \<times> db_state" where
  "get_summary json_loads render_error meeting_id db =
     (case get_transcript_data meeting_id db of
        None \<Rightarrow> (Inl (HTTPException 404 ''Meeting ID not found''), db)
      | Some result \<Rightarrow>
          if result = [] then (Inl (HTTPException 404 ''Meeting ID not found''), db)
          else
            (case (case map_of result ''status'' of None \<Rightarrow> Some ''unknown'' | Some v \<Rightarrow> v) of
               None \<Rightarrow> (Inl (Unhandled (AttributeError none_lower_msg)), db)
             | Some s \<Rightarrow>
                 let status = py_lower s in
                 (case map_of result ''result'' of
                    Some (Some r) \<Rightarrow>
                      if r \<noteq> [] then
                        (case json_loads r of
                           Inl e \<Rightarrow> (Inl (Unhandled e), db)
                         | Inr data \<Rightarrow>
                             (case render_error data of
                                Some e \<Rightarrow> (Inl (Unhandled e), db)
                              | None \<Rightarrow>
                                  (Inr \<lparr>sum_status = status, sum_meeting_id = meeting_id,
                                        sum_data = Some data\<rparr>, db)))
                      else
                        (Inr \<lparr>sum_status = status, sum_meeting_id = meeting_id,
                              sum_data = None\<rparr>, db)
                  | _ \<Rightarrow>
                      (Inr \<lparr>sum_status = status, sum_meeting_id = meeting_id,
                            sum_data = None\<rparr>, db))))"

section \<open>DatabaseManager: transactions\<close>













section \<open>Examples\<close>

text \<open>
  A valid submission, a transcript processor all of whose chunks fail, one that raises, a
  stand-in for \<open>json.dumps\<close>, and a store with one pending job.
\<close>

definition example_request :: transcript_request where
  "example_request =
     \<lparr>req_text = [104, 105], req_model = ''ollama'', req_model_name = ''llama3'',
      req_meeting_id = ''m1'', req_chunk_size = Some 5000, req_overlap = Some 1000,
      req_custom_prompt = None\<rparr>"


definition failing_processor :: "(int, nat) transcript_processor" where
  "failing_processor c w = (Inl (OtherException ''RuntimeError'' ''backend down''), Suc w)"

definition example_dumps :: "int list \<Rightarrow> py_exception + string" where
  "example_dumps d = Inr (replicate (length d) CHR ''j'')"

definition pending_db :: db_state where
  "pending_db = snd (create_process ''m1'' empty_db)"

text \<open>A submission with an empty text and the chunk size 0.\<close>

definition invalid_request :: transcript_request where
  "invalid_request = example_request\<lparr>req_text := [], req_chunk_size := Some 0\<rparr>"

text \<open>
  The store after a first submission for the meeting has been processed to the end.
\<close>

definition completed_db :: db_state where
  "completed_db =
     snd (snd (process_transcript_background reliable echo_processor example_dumps ''m1''
       example_request (0, fst (snd (process_transcript_api example_request (empty_db, []))))))"

text \<open>
  A transcript processor that is cancelled while it waits for the backend, and a store
  that answers every call with an error.
\<close>

definition cancelled_processor :: "(int, nat) transcript_processor" where
  "cancelled_processor c w = (Inl (CancelledError []), Suc w)"

definition store_down :: store_fault where
  "store_down call db = Some (OtherException ''OperationalError'' ''database is locked'')"

text \<open>
  A store whose job has the status in upper case, and one whose job has a result that
  decodes to \<open>NaN\<close>; a stand-in for \<open>json.loads\<close> that knows \<open>NaN\<close>, and the rendering
  that refuses it.
\<close>

definition upper_case_db :: db_state where
  "upper_case_db =
     \<lparr>summary_processes =
        [\<lparr>sp_meeting_id = ''m1'', sp_status = ''PENDING'', sp_error = None, sp_result = None\<rparr>],
      transcript_chunks = [], writes = []\<rparr>"

definition nan_db :: db_state where
  "nan_db =
     \<lparr>summary_processes =
        [\<lparr>sp_meeting_id = ''m1'', sp_status = ''completed'', sp_error = None,
          sp_result = Some ''[NaN]''\<rparr>],
      transcript_chunks = [], writes = []\<rparr>"

datatype example_json = JNumbers nat | JNaN

definition nan_loads :: "string \<Rightarrow> py_exception + example_json" where
  "nan_loads s = (if s = ''[NaN]'' then Inr JNaN else Inr (JNumbers (length s)))"

definition strict_render_error :: "example_json \<Rightarrow> py_exception option" where
  "strict_render_error data =
     (case data of
        JNaN \<Rightarrow> Some (ValueError ''Out of range float values are not JSON compliant'')
      | JNumbers n \<Rightarrow> None)"



section \<open>Properties of the validation\<close>

lemma dropWhile_all: "(\<forall>x\<in>set (dropWhile P xs). P x) \<longleftrightarrow> (\<forall>x\<in>set xs. P x)"
  by (induction xs) auto

lemma py_strip_empty_iff: "py_strip s = [] \<longleftrightarrow> blank s"
  by (simp add: py_strip_def blank_def dropWhile_eq_Nil_conv list_all_iff dropWhile_all)

text \<open>
  Claim C1. For a text that is not blank, \<open>chunk_size > 0\<close> and
  \<open>overlap \<ge> chunk_size\<close>, the transcript processor, whatever it is, is called once, with
  the given text and chunk size and with the overlap \<open>chunk_size - 1\<close>; so the advance of
  the window, \<open>chunk_size - overlap\<close> of that call, is at least 1.
\<close>

theorem overlap_clamped_below_chunk_size:
  assumes "\<not> blank text" and "0 < cs" and "cs \<le> ov"
  shows "\<exists>c. (\<forall>(tp :: ('d, 'w) transcript_processor) w.
                   process_transcript tp text model model_name (Some cs) (Some ov)
                     custom_prompt w = tp c w)
            \<and> tp_text c = text \<and> tp_chunk_size c = cs \<and> tp_overlap c = cs - 1
            \<and> 1 \<le> tp_chunk_size c - tp_overlap c"
proof -
  let ?c = "\<lparr>tp_text = text, tp_model = model, tp_model_name = model_name,
             tp_chunk_size = cs, tp_overlap = cs - 1,
             tp_custom_prompt = prompt_or_default custom_prompt\<rparr>"
  have "py_strip text \<noteq> []"
    using assms(1) by (simp add: py_strip_empty_iff)
  then have "\<forall>(tp :: ('d, 'w) transcript_processor) w.
               process_transcript tp text model model_name (Some cs) (Some ov)
                 custom_prompt w = tp ?c w"
    using assms(2,3) by (simp add: process_transcript_def)
  then show ?thesis
    by (intro exI [of _ ?c]) simp
qed

theorem overlap_clamped_below_chunk_size_witness:
  "\<not> blank [104, 105] \<and> (0::int) < 5 \<and> (5::int) \<le> 9
   \<and> process_transcript echo_processor [104, 105] ''m'' ''n'' (Some 5) (Some 9) None 0
       = (Inr (1, [4]), Suc 0)"
proof -
  have b: "\<not> blank [104, 105]"
    by (simp add: blank_def py_isspace_def)
  obtain c where c: "\<forall>(tp :: (int, nat) transcript_processor) w.
                        process_transcript tp [104, 105] ''m'' ''n'' (Some 5) (Some 9) None w
                          = tp c w"
      and ov: "tp_overlap c = 5 - 1"
    using overlap_clamped_below_chunk_size [where 'w = nat and 'd = int, OF b, of 5 9 "''m''" "''n''" None]
    by auto
  from c have "process_transcript echo_processor [104, 105] ''m'' ''n'' (Some 5) (Some 9) None 0
      = echo_processor c 0"
    by blast
  with ov b show ?thesis
    by (simp add: echo_processor_def)
qed

text \<open>
  Claim C2. When the text is empty or consists only of white space, the call raises
  \<open>ValueError("Transcript text is empty")\<close>, the input error, whatever the other arguments
  are, and the transcript processor is not called: the result does not depend on it and
  the state of the backend is unchanged. When the text is not blank, \<open>chunk_size > 0\<close>
  and \<open>overlap \<ge> 0\<close>, the validation raises nothing: the call is the call of the
  transcript processor on that text and chunk size.
\<close>

theorem blank_text_rejected_before_chunking:
  "(blank text \<longrightarrow>
      (\<forall>(tp :: ('d, 'w) transcript_processor) w.
         process_transcript tp text model model_name chunk_size overlap custom_prompt w
           = (Inl (ValueError ''Transcript text is empty''), w)))
   \<and> (\<not> blank text \<and> 0 < cs \<and> 0 \<le> ov \<longrightarrow>
      (\<forall>(tp :: ('d, 'w) transcript_processor) w.
         process_transcript tp text model model_name (Some cs) (Some ov) custom_prompt w
           = tp \<lparr>tp_text = text, tp_model = model, tp_model_name = model_name,
                 tp_chunk_size = cs, tp_overlap = (if ov \<ge> cs then cs - 1 else ov),
                 tp_custom_prompt = prompt_or_default custom_prompt\<rparr> w))"
  by (simp add: process_transcript_def py_strip_empty_iff)

theorem blank_text_rejected_before_chunking_witness:
  "blank [32, 10, 9] \<and> blank []
   \<and> process_transcript echo_processor [32, 10, 9] ''m'' ''n'' (Some 5000) (Some 1000) None 0
       = (Inl (ValueError ''Transcript text is empty''), 0)
   \<and> process_transcript echo_processor [] ''m'' ''n'' (Some 5000) (Some 1000) None 0
       = (Inl (ValueError ''Transcript text is empty''), 0)
   \<and> \<not> blank [32, 104, 105] \<and> (0::int) < 5000 \<and> (0::int) \<le> 1000
   \<and> process_transcript echo_processor [32, 104, 105] ''m'' ''n'' (Some 5000) (Some 1000) None 0
       = (Inr (1, [1000]), Suc 0)"
proof -
  have b1: "blank [32, 10, 9]" and b2: "blank []" and b3: "\<not> blank [32, 104, 105]"
    by (simp_all add: blank_def py_isspace_def)
  note t1 = blank_text_rejected_before_chunking
      [where 'w = nat and 'd = int, of "[32, 10, 9]" "''m''" "''n''" "Some 5000" "Some 1000" None 1 0]
  note t2 = blank_text_rejected_before_chunking
      [where 'w = nat and 'd = int, of "[]" "''m''" "''n''" "Some 5000" "Some 1000" None 1 0]
  note t3 = blank_text_rejected_before_chunking
      [where 'w = nat and 'd = int, of "[32, 104, 105]" "''m''" "''n''" None None None 5000 1000]
  have r1: "process_transcript echo_processor [32, 10, 9] ''m'' ''n'' (Some 5000) (Some 1000) None 0
       = (Inl (ValueError ''Transcript text is empty''), 0)"
    using t1 b1 by blast
  have r2: "process_transcript echo_processor [] ''m'' ''n'' (Some 5000) (Some 1000) None 0
       = (Inl (ValueError ''Transcript text is empty''), 0)"
    using t2 b2 by blast
  have "process_transcript echo_processor [32, 104, 105] ''m'' ''n'' (Some 5000) (Some 1000) None 0
       = echo_processor \<lparr>tp_text = [32, 104, 105], tp_model = ''m'', tp_model_name = ''n'',
                 tp_chunk_size = 5000, tp_overlap = (if (1000::int) \<ge> 5000 then 5000 - 1 else 1000),
                 tp_custom_prompt = prompt_or_default None\<rparr> 0"
    using t3 b3 by simp
  then have r3: "process_transcript echo_processor [32, 104, 105] ''m'' ''n'' (Some 5000) (Some 1000) None 0
       = (Inr (1, [1000]), Suc 0)"
    by (simp add: echo_processor_def)
  from b1 b2 b3 r1 r2 r3 show ?thesis by simp
qed

text \<open>
  Claim C4, as stated: with a text that is not blank, \<open>chunk_size > 0\<close> and
  \<open>overlap < 0\<close> the overlap is treated as 0 and processing goes on. It does not: at
  \<open>chunk_size = 5\<close>, \<open>overlap = -1\<close> the call raises and the transcript processor is not
  called, where the claim has it called with the overlap 0.
\<close>

theorem negative_overlap_treated_as_zero_counterexample:
  "process_transcript echo_processor [104, 105] ''m'' ''n'' (Some 5) (Some (- 1)) None 0
     = (Inl (ValueError ''Invalid chunk_size or overlap''), 0)
   \<and> process_transcript echo_processor [104, 105] ''m'' ''n'' (Some 5) (Some (- 1)) None 0
     \<noteq> echo_processor \<lparr>tp_text = [104, 105], tp_model = ''m'', tp_model_name = ''n'',
          tp_chunk_size = 5, tp_overlap = 0, tp_custom_prompt = prompt_or_default None\<rparr> 0"
  by (simp add: process_transcript_def py_strip_def py_isspace_def echo_processor_def)

text \<open>
  Claim C4, amended. With a text that is not blank, \<open>chunk_size > 0\<close> and \<open>overlap < 0\<close>
  the call raises \<open>ValueError("Invalid chunk_size or overlap")\<close> and the transcript
  processor is not called.
\<close>

theorem negative_overlap_rejected:
  assumes "\<not> blank text" and "0 < cs" and "ov < 0"
  shows "process_transcript tp text model model_name (Some cs) (Some ov) custom_prompt w
           = (Inl (ValueError ''Invalid chunk_size or overlap''), w)"
  using assms by (simp add: process_transcript_def py_strip_empty_iff)

theorem negative_overlap_rejected_witness:
  "\<not> blank [104, 105] \<and> (0::int) < 5 \<and> (- 1 :: int) < 0
   \<and> process_transcript echo_processor [104, 105] ''m'' ''n'' (Some 5) (Some (- 1)) None 0
       = (Inl (ValueError ''Invalid chunk_size or overlap''), 0)"
proof -
  have b: "\<not> blank [104, 105]"
    by (simp add: blank_def py_isspace_def)
  show ?thesis
    using b negative_overlap_rejected [OF b, of 5 "- 1" echo_processor "''m''" "''n''" None 0]
    by simp
qed

section \<open>Properties of the store and of the background run\<close>

lemma find_process_upsert:
  "find_process m (upsert_process row rows)
     = (if m = sp_meeting_id row then Some row else find_process m rows)"
  by (induction rows) (auto simp: find_process_def)

lemma ids_upsert:
  "sp_meeting_id ` set (upsert_process row rows)
     = insert (sp_meeting_id row) (sp_meeting_id ` set rows)"
  by (induction rows) auto

lemma distinct_upsert:
  "distinct (map sp_meeting_id rows) \<Longrightarrow> distinct (map sp_meeting_id (upsert_process row rows))"
  by (induction rows) (auto simp: ids_upsert)

lemma filter_none:
  "m \<notin> sp_meeting_id ` set rows \<Longrightarrow> filter (\<lambda>r. sp_meeting_id r = m) rows = []"
  by (induction rows) auto

lemma filter_upsert:
  "distinct (map sp_meeting_id rows) \<Longrightarrow>
     filter (\<lambda>r. sp_meeting_id r = sp_meeting_id row) (upsert_process row rows) = [row]"
  by (induction rows) (auto simp: filter_none)

lemma length_upsert:
  "sp_meeting_id row \<in> sp_meeting_id ` set rows \<Longrightarrow>
     length (upsert_process row rows) = length rows"
  by (induction rows) auto

lemma find_process_map:
  assumes "\<And>r. sp_meeting_id (f r) = sp_meeting_id r"
  shows "find_process m (map (\<lambda>r. if sp_meeting_id r = pid then f r else r) rows)
     = (if m = pid then map_option f (find_process pid rows) else find_process m rows)"
  using assms by (induction rows) (auto simp: find_process_def)

lemma find_process_update:
  "find_process m (summary_processes (update_process pid st err res db))
     = (if m = pid
        then map_option (\<lambda>r. r\<lparr>sp_status := st,
               sp_error := (case err of None \<Rightarrow> sp_error r | Some e \<Rightarrow> Some e),
               sp_result := (case res of None \<Rightarrow> sp_result r | Some x \<Rightarrow> Some x)\<rparr>)
               (find_process pid (summary_processes db))
        else find_process m (summary_processes db))"
  unfolding update_process_def
  by (simp add: find_process_map)

lemma writes_update:
  "writes (update_process pid st err res db) = writes db @ [UpdateProcess pid st err res]"
  by (simp add: update_process_def)

lemma updated_rows:
  assumes "r \<in> set (map (\<lambda>x. if sp_meeting_id x = pid then f x else x) rows)"
    and "sp_meeting_id r = pid"
  shows "\<exists>x. r = f x"
  using assms by (induction rows) (auto split: if_splits)

lemma rows_after_failed_update:
  assumes "r \<in> set (summary_processes (update_process pid st (Some e) None db))"
    and "sp_meeting_id r = pid"
  shows "sp_status r = st \<and> sp_error r = Some e"
proof -
  let ?f = "\<lambda>x. x\<lparr>sp_status := st, sp_error := Some e, sp_result := sp_result x\<rparr>"
  from assms(1) have "r \<in> set (map (\<lambda>x. if sp_meeting_id x = pid then ?f x else x)
                        (summary_processes db))"
    by (simp add: update_process_def)
  from updated_rows [OF this assms(2)] obtain x where "r = ?f x" ..
  then show ?thesis by simp
qed

lemma failed_update_recorded:
  "writes (update_process pid ''failed'' (Some e) None db)
       = writes db @ [UpdateProcess pid ''failed'' (Some e) None]
   \<and> find_process pid (summary_processes (update_process pid ''failed'' (Some e) None db))
       = map_option (\<lambda>r. r\<lparr>sp_status := ''failed'', sp_error := Some e\<rparr>)
           (find_process pid (summary_processes db))
   \<and> (\<forall>r \<in> set (summary_processes (update_process pid ''failed'' (Some e) None db)).
         sp_meeting_id r = pid \<longrightarrow> sp_status r = ''failed'' \<and> sp_error r = Some e)"
proof (intro conjI ballI impI)
  show "writes (update_process pid ''failed'' (Some e) None db)
       = writes db @ [UpdateProcess pid ''failed'' (Some e) None]"
    by (rule writes_update)
  show "find_process pid (summary_processes (update_process pid ''failed'' (Some e) None db))
       = map_option (\<lambda>r. r\<lparr>sp_status := ''failed'', sp_error := Some e\<rparr>)
           (find_process pid (summary_processes db))"
    by (simp add: find_process_update)
next
  fix r
  assume "r \<in> set (summary_processes (update_process pid ''failed'' (Some e) None db))"
    and "sp_meeting_id r = pid"
  then have "sp_status r = ''failed'' \<and> sp_error r = Some e"
    by (rule rows_after_failed_update)
  then show "sp_status r = ''failed''" and "sp_error r = Some e" by simp_all
qed

lemma writes_db_update:
  "writes (snd (db_update_process fault pid st err res db))
     = writes db @ [UpdateProcess pid st err res]"
  by (simp add: db_update_process_def writes_update split: option.splits)

lemma db_update_accepted:
  "fault (UpdateProcess pid st err res) db = None \<Longrightarrow>
     db_update_process fault pid st err res db = (Inr (), update_process pid st err res db)"
  by (simp add: db_update_process_def)

lemma db_update_refused:
  "fault (UpdateProcess pid st err res) db = Some e \<Longrightarrow>
     db_update_process fault pid st err res db
       = (Inl e, db\<lparr>writes := writes db @ [UpdateProcess pid st err res]\<rparr>)"
  by (simp add: db_update_process_def)

lemma background_raised:
  assumes "process_transcript tp (req_text t) (req_model t) (req_model_name t)
             (req_chunk_size t) (req_overlap t) (req_custom_prompt t) w = (Inl e, w')"
  shows "process_transcript_background fault tp json_dumps pid t (w, db)
           = (fst (background_except fault pid e db), w', snd (background_except fault pid e db))"
  using assms by (simp add: process_transcript_background_def split: prod.splits)

lemma background_empty:
  assumes "process_transcript tp (req_text t) (req_model t) (req_model_name t)
             (req_chunk_size t) (req_overlap t) (req_custom_prompt t) w = (Inr (n, []), w')"
    and "fault (UpdateProcess pid ''failed'' (Some ''No chunks processed'') None) db = None"
  shows "process_transcript_background fault tp json_dumps pid t (w, db)
           = (Inr (), w', update_process pid ''failed'' (Some ''No chunks processed'') None db)"
  using assms by (simp add: process_transcript_background_def db_update_accepted)

lemma background_dumps_raised:
  assumes "process_transcript tp (req_text t) (req_model t) (req_model_name t)
             (req_chunk_size t) (req_overlap t) (req_custom_prompt t) w = (Inr (n, d), w')"
    and "d \<noteq> []" and "json_dumps d = Inl e"
  shows "process_transcript_background fault tp json_dumps pid t (w, db)
           = (fst (background_except fault pid e db), w', snd (background_except fault pid e db))"
  using assms by (simp add: process_transcript_background_def split: prod.splits)

lemma background_completed:
  assumes "process_transcript tp (req_text t) (req_model t) (req_model_name t)
             (req_chunk_size t) (req_overlap t) (req_custom_prompt t) w = (Inr (n, d), w')"
    and "d \<noteq> []" and "json_dumps d = Inr s"
    and "fault (UpdateProcess pid ''completed'' None (Some s)) db = None"
  shows "process_transcript_background fault tp json_dumps pid t (w, db)
           = (Inr (), w', update_process pid ''completed'' None (Some s) db)"
  using assms by (simp add: process_transcript_background_def db_update_accepted)

lemma except_caught:
  assumes "is_Exception e"
    and "fault (UpdateProcess pid ''failed'' (Some (exception_str e)) None) db = None"
  shows "background_except fault pid e db
           = (Inr (), update_process pid ''failed'' (Some (exception_str e)) None db)"
  using assms by (simp add: background_except_def db_update_accepted)

lemma except_update_raised:
  assumes "is_Exception e"
    and "fault (UpdateProcess pid ''failed'' (Some (exception_str e)) None) db = Some e'"
  shows "background_except fault pid e db
           = (Inl e', db\<lparr>writes := writes db
                 @ [UpdateProcess pid ''failed'' (Some (exception_str e)) None]\<rparr>)"
  using assms by (simp add: background_except_def db_update_refused)

lemma except_not_caught:
  assumes "\<not> is_Exception e"
  shows "background_except fault pid e db = (Inl e, db)"
  using assms by (simp add: background_except_def)

lemma background_empty_refused:
  assumes "process_transcript tp (req_text t) (req_model t) (req_model_name t)
             (req_chunk_size t) (req_overlap t) (req_custom_prompt t) w = (Inr (n, []), w')"
    and "fault (UpdateProcess pid ''failed'' (Some ''No chunks processed'') None) db = Some e"
  shows "process_transcript_background fault tp json_dumps pid t (w, db)
           = (fst (background_except fault pid e
                     (db\<lparr>writes := writes db
                        @ [UpdateProcess pid ''failed'' (Some ''No chunks processed'') None]\<rparr>)),
              w',
              snd (background_except fault pid e
                     (db\<lparr>writes := writes db
                        @ [UpdateProcess pid ''failed'' (Some ''No chunks processed'') None]\<rparr>)))"
  using assms
  by (simp add: process_transcript_background_def db_update_refused split: prod.splits)

lemma background_completed_refused:
  assumes "process_transcript tp (req_text t) (req_model t) (req_model_name t)
             (req_chunk_size t) (req_overlap t) (req_custom_prompt t) w = (Inr (n, d), w')"
    and "d \<noteq> []" and "json_dumps d = Inr s"
    and "fault (UpdateProcess pid ''completed'' None (Some s)) db = Some e"
  shows "process_transcript_background fault tp json_dumps pid t (w, db)
           = (fst (background_except fault pid e
                     (db\<lparr>writes := writes db
                        @ [UpdateProcess pid ''completed'' None (Some s)]\<rparr>)),
              w',
              snd (background_except fault pid e
                     (db\<lparr>writes := writes db
                        @ [UpdateProcess pid ''completed'' None (Some s)]\<rparr>)))"
  using assms
  by (simp add: process_transcript_background_def db_update_refused split: prod.splits)

lemma except_writes:
  "writes (snd (background_except fault pid e db))
     = writes db @ (if is_Exception e
                    then [UpdateProcess pid ''failed'' (Some (exception_str e)) None] else [])"
  by (simp add: background_except_def writes_db_update)

lemma background_writes:
  "\<exists>new. writes (snd (snd (process_transcript_background fault tp json_dumps pid t (w, db))))
            = writes db @ new
         \<and> length new \<le> 2
         \<and> (\<forall>u \<in> set new. (\<exists>s. u = UpdateProcess pid ''completed'' None (Some s))
                             \<or> (\<exists>e. u = UpdateProcess pid ''failed'' (Some e) None))"
proof -
  let ?run = "process_transcript_background fault tp json_dumps pid t (w, db)"
  let ?ok = "\<lambda>u. (\<exists>s. u = UpdateProcess pid ''completed'' None (Some s))
                 \<or> (\<exists>e. u = UpdateProcess pid ''failed'' (Some e) None)"
  have after_except: "\<exists>new. writes (snd (background_except fault pid e db0)) = writes db0 @ new
          \<and> length new \<le> 1 \<and> (\<forall>u \<in> set new. ?ok u)" for e db0
    by (simp add: except_writes)
  have first_refused: "\<exists>new. writes (snd (snd ?run)) = writes db @ new \<and> length new \<le> 2
          \<and> (\<forall>u \<in> set new. ?ok u)"
    if run: "?run = (fst (background_except fault pid e db1), w',
                     snd (background_except fault pid e db1))"
      and db1: "writes db1 = writes db @ [u1]" and u1: "?ok u1" for e db1 w' u1
  proof -
    from after_except [of e db1] obtain new where
      new: "writes (snd (background_except fault pid e db1)) = writes db1 @ new"
      and len: "length new \<le> 1" and ok: "\<forall>u \<in> set new. ?ok u"
      by blast
    have "writes (snd (snd ?run)) = writes db @ (u1 # new)"
      by (simp add: run new db1)
    moreover have "length (u1 # new) \<le> 2"
      using len by simp
    moreover have "\<forall>u \<in> set (u1 # new). ?ok u"
      using ok u1 by simp
    ultimately show ?thesis by blast
  qed
  have caught: "\<exists>new. writes (snd (snd ?run)) = writes db @ new \<and> length new \<le> 2
          \<and> (\<forall>u \<in> set new. ?ok u)"
    if run: "?run = (fst (background_except fault pid e db), w',
                     snd (background_except fault pid e db))" for e w'
  proof -
    from after_except [of e db] obtain new where
      new: "writes (snd (background_except fault pid e db)) = writes db @ new"
      and len: "length new \<le> 1" and ok: "\<forall>u \<in> set new. ?ok u"
      by blast
    have "writes (snd (snd ?run)) = writes db @ new"
      by (simp add: run new)
    moreover have "length new \<le> 2"
      using len by simp
    ultimately show ?thesis using ok by blast
  qed
  have accepted: "\<exists>new. writes (snd (snd ?run)) = writes db @ new \<and> length new \<le> 2
          \<and> (\<forall>u \<in> set new. ?ok u)"
    if run: "?run = (Inr (), w', update_process pid st err res db)"
      and u1: "?ok (UpdateProcess pid st err res)" for w' st err res
  proof -
    have "writes (snd (snd ?run)) = writes db @ [UpdateProcess pid st err res]"
      by (simp add: run writes_update)
    moreover have "length [UpdateProcess pid st err res] \<le> 2"
      by simp
    moreover have "\<forall>u \<in> set [UpdateProcess pid st err res]. ?ok u"
      using u1 by simp
    ultimately show ?thesis by blast
  qed
  obtain r w' where r: "process_transcript tp (req_text t) (req_model t) (req_model_name t)
             (req_chunk_size t) (req_overlap t) (req_custom_prompt t) w = (r, w')"
    by (cases "process_transcript tp (req_text t) (req_model t) (req_model_name t)
             (req_chunk_size t) (req_overlap t) (req_custom_prompt t) w")
  show ?thesis
  proof (cases r)
    case (Inl e)
    with r have "?run = (fst (background_except fault pid e db), w',
                     snd (background_except fault pid e db))"
      by (intro background_raised) simp
    then show ?thesis by (rule caught)
  next
    case (Inr p)
    obtain n d where p: "p = (n, d)" by (cases p)
    from r Inr p have pt: "process_transcript tp (req_text t) (req_model t) (req_model_name t)
             (req_chunk_size t) (req_overlap t) (req_custom_prompt t) w = (Inr (n, d), w')"
      by simp
    show ?thesis
    proof (cases "d = []")
      case True
      let ?u = "UpdateProcess pid ''failed'' (Some ''No chunks processed'') None"
      show ?thesis
      proof (cases "fault ?u db")
        case None
        from pt True have pt0: "process_transcript tp (req_text t) (req_model t)
             (req_model_name t) (req_chunk_size t) (req_overlap t) (req_custom_prompt t) w
             = (Inr (n, []), w')"
          by simp
        have "?run = (Inr (), w',
                update_process pid ''failed'' (Some ''No chunks processed'') None db)"
          by (rule background_empty 
              [where fault = fault and db = db and json_dumps = json_dumps and tp = tp,
               OF pt0 None])
        then show ?thesis
          by (rule accepted) simp
      next
        case (Some e)
        let ?db1 = "db\<lparr>writes := writes db @ [?u]\<rparr>"
        from pt True have pt0: "process_transcript tp (req_text t) (req_model t)
             (req_model_name t) (req_chunk_size t) (req_overlap t) (req_custom_prompt t) w
             = (Inr (n, []), w')"
          by simp
        have run: "?run = (fst (background_except fault pid e ?db1), w',
                     snd (background_except fault pid e ?db1))"
          by (rule background_empty_refused 
              [where fault = fault and db = db and json_dumps = json_dumps and tp = tp,
               OF pt0 Some])
        show ?thesis
          by (rule first_refused [OF run, of ?u]) simp_all
      qed
    next
      case False
      show ?thesis
      proof (cases "json_dumps d")
        case (Inl e)
        have "?run = (fst (background_except fault pid e db), w',
                     snd (background_except fault pid e db))"
          by (rule background_dumps_raised
              [where json_dumps = json_dumps and tp = tp, OF pt False Inl])
        then show ?thesis by (rule caught)
      next
        case (Inr s)
        let ?u = "UpdateProcess pid ''completed'' None (Some s)"
        show ?thesis
        proof (cases "fault ?u db")
          case None
          have "?run = (Inr (), w', update_process pid ''completed'' None (Some s) db)"
            by (rule background_completed 
              [where fault = fault and db = db and json_dumps = json_dumps and tp = tp,
               OF pt False Inr None])
          then show ?thesis
            by (rule accepted) simp
        next
          case (Some e)
          let ?db1 = "db\<lparr>writes := writes db @ [?u]\<rparr>"
          have run: "?run = (fst (background_except fault pid e ?db1), w',
                     snd (background_except fault pid e ?db1))"
            by (rule background_completed_refused
              [where fault = fault and db = db and json_dumps = json_dumps and tp = tp,
               OF pt False Inr Some])
          show ?thesis
            by (rule first_refused [OF run, of ?u]) simp_all
        qed
      qed
    qed
  qed
qed



text \<open>
  Claim C6, as stated: every exception raised during the background run is captured into
  the error field of the job by an update to \<open>failed\<close>, and none leaves the task. It is
  not so. When the transcript processor is cancelled, the \<open>CancelledError\<close>, which is
  not of class \<open>Exception\<close>, leaves the task and nothing is written. When the transcript
  processor raises and the store then refuses the update, the error of the store leaves
  the task and the job stays pending without an error.
\<close>

theorem every_exception_captured_counterexample:
  "process_transcript_background reliable cancelled_processor example_dumps ''m1''
       example_request (0, pending_db)
     = (Inl (CancelledError []), Suc 0, pending_db)
   \<and> fst (process_transcript_background store_down failing_processor example_dumps ''m1''
            example_request (0, pending_db))
     = Inl (OtherException ''OperationalError'' ''database is locked'')
   \<and> find_process ''m1'' (summary_processes (snd (snd
        (process_transcript_background store_down failing_processor example_dumps ''m1''
           example_request (0, pending_db)))))
     = Some \<lparr>sp_meeting_id = ''m1'', sp_status = ''pending'', sp_error = None,
             sp_result = None\<rparr>"
  by (simp add: process_transcript_background_def process_transcript_def example_request_def
      cancelled_processor_def failing_processor_def py_strip_def py_isspace_def
      background_except_def db_update_process_def store_down_def pending_db_def
      create_process_def empty_db_def find_process_def)

text \<open>
  Claim C6, amended. Let an exception be raised inside the \<open>try\<close> of the background
  run: by the validation or the transcript processor, by \<open>json.dumps\<close>, or by the update
  of the job that the run makes there; no table of the store has changed then. If the
  exception is of class \<open>Exception\<close>, the handler calls \<open>update_process(process_id,
  status="failed", error=str(e))\<close>; when the store performs this update, the task returns
  normally and the job record has the status \<open>failed\<close> and the text of the exception as
  its error; when the store answers this update with an exception, that exception leaves
  the task. If the exception is not of class \<open>Exception\<close>, it leaves the task and no
  further call is made.
\<close>

theorem background_exception_captured:
  assumes "(process_transcript tp (req_text t) (req_model t) (req_model_name t)
              (req_chunk_size t) (req_overlap t) (req_custom_prompt t) w = (Inl e, w')
            \<and> db0 = db)
           \<or> (\<exists>n d. process_transcript tp (req_text t) (req_model t) (req_model_name t)
                 (req_chunk_size t) (req_overlap t) (req_custom_prompt t) w = (Inr (n, d), w')
               \<and> d \<noteq> [] \<and> json_dumps d = Inl e \<and> db0 = db)
           \<or> (\<exists>n d s. process_transcript tp (req_text t) (req_model t) (req_model_name t)
                 (req_chunk_size t) (req_overlap t) (req_custom_prompt t) w = (Inr (n, d), w')
               \<and> d \<noteq> [] \<and> json_dumps d = Inr s
               \<and> fault (UpdateProcess pid ''completed'' None (Some s)) db = Some e
               \<and> db0 = db\<lparr>writes := writes db
                          @ [UpdateProcess pid ''completed'' None (Some s)]\<rparr>)
           \<or> (\<exists>n. process_transcript tp (req_text t) (req_model t) (req_model_name t)
                 (req_chunk_size t) (req_overlap t) (req_custom_prompt t) w = (Inr (n, []), w')
               \<and> fault (UpdateProcess pid ''failed'' (Some ''No chunks processed'') None) db
                   = Some e
               \<and> db0 = db\<lparr>writes := writes db
                          @ [UpdateProcess pid ''failed'' (Some ''No chunks processed'') None]\<rparr>)"
  shows "summary_processes db0 = summary_processes db
         \<and> (is_Exception e
              \<and> fault (UpdateProcess pid ''failed'' (Some (exception_str e)) None) db0 = None \<longrightarrow>
             (\<exists>db'. process_transcript_background fault tp json_dumps pid t (w, db)
                      = (Inr (), w', db')
                \<and> writes db'
                    = writes db0 @ [UpdateProcess pid ''failed'' (Some (exception_str e)) None]
                \<and> find_process pid (summary_processes db')
                    = map_option
                        (\<lambda>r. r\<lparr>sp_status := ''failed'', sp_error := Some (exception_str e)\<rparr>)
                        (find_process pid (summary_processes db0))
                \<and> (\<forall>r \<in> set (summary_processes db').
                      sp_meeting_id r = pid \<longrightarrow>
                        sp_status r = ''failed'' \<and> sp_error r = Some (exception_str e))))
         \<and> (is_Exception e
              \<and> fault (UpdateProcess pid ''failed'' (Some (exception_str e)) None) db0 = Some e' \<longrightarrow>
             process_transcript_background fault tp json_dumps pid t (w, db)
               = (Inl e', w',
                  db0\<lparr>writes := writes db0
                     @ [UpdateProcess pid ''failed'' (Some (exception_str e)) None]\<rparr>))
         \<and> (\<not> is_Exception e \<longrightarrow>
             process_transcript_background fault tp json_dumps pid t (w, db) = (Inl e, w', db0))"
proof -
  let ?run = "process_transcript_background fault tp json_dumps pid t (w, db)"
  let ?u = "UpdateProcess pid ''failed'' (Some (exception_str e)) None"
  from assms have tables: "summary_processes db0 = summary_processes db"
    by auto
  from assms have run: "?run = (fst (background_except fault pid e db0), w',
                                snd (background_except fault pid e db0))"
  proof (elim disjE exE conjE)
    assume "process_transcript tp (req_text t) (req_model t) (req_model_name t)
              (req_chunk_size t) (req_overlap t) (req_custom_prompt t) w = (Inl e, w')"
      and "db0 = db"
    then show ?thesis by (simp add: background_raised)
  next
    fix n d
    assume "process_transcript tp (req_text t) (req_model t) (req_model_name t)
                 (req_chunk_size t) (req_overlap t) (req_custom_prompt t) w = (Inr (n, d), w')"
      and "d \<noteq> []" and "json_dumps d = Inl e" and "db0 = db"
    then show ?thesis
      using background_dumps_raised [where json_dumps = json_dumps and tp = tp and d = d
          and e = e and fault = fault and db = db and pid = pid and t = t and w = w
          and w' = w' and n = n]
      by simp
  next
    fix n d s
    assume "process_transcript tp (req_text t) (req_model t) (req_model_name t)
                 (req_chunk_size t) (req_overlap t) (req_custom_prompt t) w = (Inr (n, d), w')"
      and "d \<noteq> []" and "json_dumps d = Inr s"
      and "fault (UpdateProcess pid ''completed'' None (Some s)) db = Some e"
      and "db0 = db\<lparr>writes := writes db @ [UpdateProcess pid ''completed'' None (Some s)]\<rparr>"
    then show ?thesis
      using background_completed_refused [where json_dumps = json_dumps and tp = tp and d = d
          and e = e and fault = fault and db = db and pid = pid and t = t and w = w
          and w' = w' and n = n and s = s]
      by simp
  next
    fix n
    assume "process_transcript tp (req_text t) (req_model t) (req_model_name t)
                 (req_chunk_size t) (req_overlap t) (req_custom_prompt t) w = (Inr (n, []), w')"
      and "fault (UpdateProcess pid ''failed'' (Some ''No chunks processed'') None) db = Some e"
      and "db0 = db\<lparr>writes := writes db
                          @ [UpdateProcess pid ''failed'' (Some ''No chunks processed'') None]\<rparr>"
    then show ?thesis
      using background_empty_refused [where json_dumps = json_dumps and tp = tp
          and e = e and fault = fault and db = db and pid = pid and t = t and w = w
          and w' = w' and n = n]
      by simp
  qed
  show ?thesis
  proof (intro conjI impI)
    show "summary_processes db0 = summary_processes db"
      by (rule tables)
  next
    let ?db = "update_process pid ''failed'' (Some (exception_str e)) None db0"
    assume "is_Exception e \<and> fault ?u db0 = None"
    then have "background_except fault pid e db0 = (Inr (), ?db)"
      by (simp add: except_caught)
    with run have r: "?run = (Inr (), w', ?db)"
      by simp
    note rec = failed_update_recorded [of pid "exception_str e" db0]
    show "\<exists>db'. ?run = (Inr (), w', db')
                \<and> writes db' = writes db0 @ [?u]
                \<and> find_process pid (summary_processes db')
                    = map_option
                        (\<lambda>r. r\<lparr>sp_status := ''failed'', sp_error := Some (exception_str e)\<rparr>)
                        (find_process pid (summary_processes db0))
                \<and> (\<forall>r \<in> set (summary_processes db').
                      sp_meeting_id r = pid \<longrightarrow>
                        sp_status r = ''failed'' \<and> sp_error r = Some (exception_str e))"
    proof (intro exI [of _ ?db] conjI)
      show "?run = (Inr (), w', ?db)" by (rule r)
      show "writes ?db = writes db0 @ [?u]"
        using rec by (rule conjunct1)
      show "find_process pid (summary_processes ?db)
                    = map_option
                        (\<lambda>r. r\<lparr>sp_status := ''failed'', sp_error := Some (exception_str e)\<rparr>)
                        (find_process pid (summary_processes db0))"
        using rec by (elim conjE)
      show "\<forall>r \<in> set (summary_processes ?db).
                      sp_meeting_id r = pid \<longrightarrow>
                        sp_status r = ''failed'' \<and> sp_error r = Some (exception_str e)"
        using rec by (elim conjE)
    qed
  next
    assume "is_Exception e \<and> fault ?u db0 = Some e'"
    then have "background_except fault pid e db0
                 = (Inl e', db0\<lparr>writes := writes db0 @ [?u]\<rparr>)"
      by (simp add: except_update_raised)
    with run show "?run = (Inl e', w', db0\<lparr>writes := writes db0 @ [?u]\<rparr>)"
      by simp
  next
    assume "\<not> is_Exception e"
    then have "background_except fault pid e db0 = (Inl e, db0)"
      by (rule except_not_caught)
    with run show "?run = (Inl e, w', db0)"
      by simp
  qed
qed

theorem background_exception_captured_witness:
  "process_transcript failing_processor (req_text example_request) (req_model example_request)
       (req_model_name example_request) (req_chunk_size example_request)
       (req_overlap example_request) (req_custom_prompt example_request) 0
     = (Inl (OtherException ''RuntimeError'' ''backend down''), Suc 0)
   \<and> is_Exception (OtherException ''RuntimeError'' ''backend down'')
   \<and> reliable (UpdateProcess ''m1'' ''failed'' (Some ''backend down'') None) pending_db = None
   \<and> fst (process_transcript_background reliable failing_processor example_dumps ''m1''
            example_request (0, pending_db)) = Inr ()
   \<and> find_process ''m1'' (summary_processes (snd (snd
        (process_transcript_background reliable failing_processor example_dumps ''m1''
            example_request (0, pending_db)))))
       = Some \<lparr>sp_meeting_id = ''m1'', sp_status = ''failed'',
               sp_error = Some ''backend down'', sp_result = None\<rparr>
   \<and> store_down (UpdateProcess ''m1'' ''failed'' (Some ''backend down'') None) pending_db
       = Some (OtherException ''OperationalError'' ''database is locked'')
   \<and> fst (process_transcript_background store_down failing_processor example_dumps ''m1''
            example_request (0, pending_db))
       = Inl (OtherException ''OperationalError'' ''database is locked'')
   \<and> process_transcript cancelled_processor (req_text example_request)
       (req_model example_request) (req_model_name example_request)
       (req_chunk_size example_request) (req_overlap example_request)
       (req_custom_prompt example_request) 0
     = (Inl (CancelledError []), Suc 0)
   \<and> \<not> is_Exception (CancelledError [])
   \<and> process_transcript_background reliable cancelled_processor example_dumps ''m1''
        example_request (0, pending_db)
       = (Inl (CancelledError []), Suc 0, pending_db)"
proof -
  let ?e = "OtherException ''RuntimeError'' ''backend down''"
  let ?s = "OtherException ''OperationalError'' ''database is locked''"
  have h: "process_transcript failing_processor (req_text example_request)
       (req_model example_request) (req_model_name example_request)
       (req_chunk_size example_request) (req_overlap example_request)
       (req_custom_prompt example_request) 0 = (Inl ?e, Suc 0)"
    by (simp add: process_transcript_def example_request_def failing_processor_def
        py_strip_def py_isspace_def)
  have c: "process_transcript cancelled_processor (req_text example_request)
       (req_model example_request) (req_model_name example_request)
       (req_chunk_size example_request) (req_overlap example_request)
       (req_custom_prompt example_request) 0 = (Inl (CancelledError []), Suc 0)"
    by (simp add: process_transcript_def example_request_def cancelled_processor_def
        py_strip_def py_isspace_def)
  have ie: "is_Exception ?e" and nc: "\<not> is_Exception (CancelledError [])"
    by simp_all
  have f: "reliable (UpdateProcess ''m1'' ''failed'' (Some ''backend down'') None) pending_db = None"
    by (simp add: reliable_def)
  have d: "store_down (UpdateProcess ''m1'' ''failed'' (Some ''backend down'') None) pending_db
             = Some ?s"
    by (simp add: store_down_def)
  have p: "find_process ''m1'' (summary_processes pending_db)
      = Some \<lparr>sp_meeting_id = ''m1'', sp_status = ''pending'', sp_error = None, sp_result = None\<rparr>"
    by (simp add: pending_db_def create_process_def empty_db_def find_process_def)
  let ?u = "UpdateProcess ''m1'' ''failed'' (Some (exception_str ?e)) None"
  have f': "reliable ?u pending_db = None"
    by (simp add: reliable_def)
  have d': "store_down ?u pending_db = Some ?s"
    by (simp add: store_down_def)
  have hh: "process_transcript failing_processor (req_text example_request)
       (req_model example_request) (req_model_name example_request)
       (req_chunk_size example_request) (req_overlap example_request)
       (req_custom_prompt example_request) 0 = (Inl ?e, Suc 0) \<and> pending_db = pending_db"
    using h by simp
  have cc: "process_transcript cancelled_processor (req_text example_request)
       (req_model example_request) (req_model_name example_request)
       (req_chunk_size example_request) (req_overlap example_request)
       (req_custom_prompt example_request) 0 = (Inl (CancelledError []), Suc 0)
       \<and> pending_db = pending_db"
    using c by simp
  note t1 = background_exception_captured
      [where fault = reliable and tp = failing_processor and json_dumps = example_dumps
         and pid = "''m1''" and t = example_request and w = 0 and w' = "Suc 0" and e = ?e
         and db = pending_db and db0 = pending_db and e' = ?s, OF disjI1, OF hh]
  note t2 = background_exception_captured
      [where fault = store_down and tp = failing_processor and json_dumps = example_dumps
         and pid = "''m1''" and t = example_request and w = 0 and w' = "Suc 0" and e = ?e
         and db = pending_db and db0 = pending_db and e' = ?s, OF disjI1, OF hh]
  note t3 = background_exception_captured
      [where fault = reliable and tp = cancelled_processor and json_dumps = example_dumps
         and pid = "''m1''" and t = example_request and w = 0 and w' = "Suc 0"
         and e = "CancelledError []" and db = pending_db and db0 = pending_db and e' = ?s,
       OF disjI1, OF cc]
  from t1 have "is_Exception ?e \<and> reliable ?u pending_db = None \<longrightarrow>
      (\<exists>db'. process_transcript_background reliable failing_processor example_dumps ''m1''
                example_request (0, pending_db) = (Inr (), Suc 0, db')
         \<and> writes db' = writes pending_db @ [?u]
         \<and> find_process ''m1'' (summary_processes db')
             = map_option (\<lambda>r. r\<lparr>sp_status := ''failed'', sp_error := Some (exception_str ?e)\<rparr>)
                 (find_process ''m1'' (summary_processes pending_db))
         \<and> (\<forall>r \<in> set (summary_processes db').
               sp_meeting_id r = ''m1'' \<longrightarrow>
                 sp_status r = ''failed'' \<and> sp_error r = Some (exception_str ?e)))"
    by (elim conjE)
  with ie f' obtain db' where
    run1: "process_transcript_background reliable failing_processor example_dumps ''m1''
       example_request (0, pending_db) = (Inr (), Suc 0, db')"
    and job1: "find_process ''m1'' (summary_processes db')
       = map_option (\<lambda>r. r\<lparr>sp_status := ''failed'', sp_error := Some (exception_str ?e)\<rparr>)
           (find_process ''m1'' (summary_processes pending_db))"
    by blast
  have r1: "fst (process_transcript_background reliable failing_processor example_dumps
            ''m1'' example_request (0, pending_db)) = Inr ()"
    by (simp add: run1)
  have r1': "find_process ''m1'' (summary_processes (snd (snd
        (process_transcript_background reliable failing_processor example_dumps ''m1''
            example_request (0, pending_db)))))
       = Some \<lparr>sp_meeting_id = ''m1'', sp_status = ''failed'',
               sp_error = Some ''backend down'', sp_result = None\<rparr>"
    by (simp add: run1 job1 p)
  from t2 have "is_Exception ?e \<and> store_down ?u pending_db = Some ?s \<longrightarrow>
      process_transcript_background store_down failing_processor example_dumps ''m1''
         example_request (0, pending_db)
       = (Inl ?s, Suc 0, pending_db\<lparr>writes := writes pending_db @ [?u]\<rparr>)"
    by (elim conjE)
  with ie d' have "process_transcript_background store_down failing_processor example_dumps
         ''m1'' example_request (0, pending_db)
       = (Inl ?s, Suc 0, pending_db\<lparr>writes := writes pending_db @ [?u]\<rparr>)"
    by blast
  then have r2: "fst (process_transcript_background store_down failing_processor
            example_dumps ''m1'' example_request (0, pending_db)) = Inl ?s"
    by (simp only: fst_conv)
  from t3 have "\<not> is_Exception (CancelledError []) \<longrightarrow>
      process_transcript_background reliable cancelled_processor example_dumps ''m1''
        example_request (0, pending_db)
       = (Inl (CancelledError []), Suc 0, pending_db)"
    by (elim conjE)
  with nc have r3: "process_transcript_background reliable cancelled_processor
        example_dumps ''m1'' example_request (0, pending_db)
       = (Inl (CancelledError []), Suc 0, pending_db)"
    by blast
  show ?thesis
    by (intro conjI h ie f r1 r1' d r2 c nc r3)
qed

text \<open>
  Claim C7. Whatever the transcript, the transcript processor and the store, also a
  failing one, every job update that the background run issues, there are at most two,
  is terminal and well-formed: its status is \<open>completed\<close> or \<open>failed\<close>; a result comes
  only with \<open>completed\<close> and an error only with \<open>failed\<close>; \<open>completed\<close> carries a result
  and no error, \<open>failed\<close> an error and no result. When the store does not fail and the
  task returns, it has written exactly one such update.
\<close>

theorem terminal_update_fields:
  "(\<exists>new. writes (snd (snd (process_transcript_background fault tp json_dumps pid t (w, db))))
            = writes db @ new
         \<and> length new \<le> 2
         \<and> (\<forall>u \<in> set new. \<exists>st err res. u = UpdateProcess pid st err res
               \<and> (st = ''completed'' \<or> st = ''failed'')
               \<and> (res \<noteq> None \<longrightarrow> st = ''completed'')
               \<and> (err \<noteq> None \<longrightarrow> st = ''failed'')
               \<and> (st = ''completed'' \<longrightarrow> res \<noteq> None \<and> err = None)
               \<and> (st = ''failed'' \<longrightarrow> err \<noteq> None \<and> res = None)))
   \<and> ((\<forall>call s. fault call s = None)
        \<and> fst (process_transcript_background fault tp json_dumps pid t (w, db)) = Inr () \<longrightarrow>
        (\<exists>st err res.
           writes (snd (snd (process_transcript_background fault tp json_dumps pid t (w, db))))
             = writes db @ [UpdateProcess pid st err res]
           \<and> (st = ''completed'' \<or> st = ''failed'')
           \<and> (res \<noteq> None \<longrightarrow> st = ''completed'')
           \<and> (err \<noteq> None \<longrightarrow> st = ''failed'')
           \<and> (st = ''completed'' \<longrightarrow> res \<noteq> None \<and> err = None)
           \<and> (st = ''failed'' \<longrightarrow> err \<noteq> None \<and> res = None)))"
proof (intro conjI impI)
  let ?run = "process_transcript_background fault tp json_dumps pid t (w, db)"
  from background_writes [of fault tp json_dumps pid t w db] obtain new where
    new: "writes (snd (snd ?run)) = writes db @ new" and len: "length new \<le> 2"
    and ok: "\<forall>u \<in> set new. (\<exists>s. u = UpdateProcess pid ''completed'' None (Some s))
                             \<or> (\<exists>e. u = UpdateProcess pid ''failed'' (Some e) None)"
    by blast
  have "\<exists>st err res. u = UpdateProcess pid st err res
               \<and> (st = ''completed'' \<or> st = ''failed'')
               \<and> (res \<noteq> None \<longrightarrow> st = ''completed'')
               \<and> (err \<noteq> None \<longrightarrow> st = ''failed'')
               \<and> (st = ''completed'' \<longrightarrow> res \<noteq> None \<and> err = None)
               \<and> (st = ''failed'' \<longrightarrow> err \<noteq> None \<and> res = None)"
    if "u \<in> set new" for u
  proof -
    from ok that consider s where "u = UpdateProcess pid ''completed'' None (Some s)"
      | e where "u = UpdateProcess pid ''failed'' (Some e) None"
      by blast
    then show ?thesis
    proof cases
      case 1
      then show ?thesis
        by (intro exI [of _ "''completed''"] exI [of _ None] exI [of _ "Some s"]) simp
    next
      case 2
      then show ?thesis
        by (intro exI [of _ "''failed''"] exI [of _ "Some e"] exI [of _ None]) simp
    qed
  qed
  with new len show "\<exists>new. writes (snd (snd ?run)) = writes db @ new
         \<and> length new \<le> 2
         \<and> (\<forall>u \<in> set new. \<exists>st err res. u = UpdateProcess pid st err res
               \<and> (st = ''completed'' \<or> st = ''failed'')
               \<and> (res \<noteq> None \<longrightarrow> st = ''completed'')
               \<and> (err \<noteq> None \<longrightarrow> st = ''failed'')
               \<and> (st = ''completed'' \<longrightarrow> res \<noteq> None \<and> err = None)
               \<and> (st = ''failed'' \<longrightarrow> err \<noteq> None \<and> res = None))"
    by blast
next
  let ?run = "process_transcript_background fault tp json_dumps pid t (w, db)"
  assume h: "(\<forall>call s. fault call s = None) \<and> fst ?run = Inr ()"
  then have nofault: "\<And>call s. fault call s = None" and ret: "fst ?run = Inr ()"
    by simp_all
  have failed: "\<exists>st err res. writes (snd (snd ?run)) = writes db @ [UpdateProcess pid st err res]
           \<and> (st = ''completed'' \<or> st = ''failed'')
           \<and> (res \<noteq> None \<longrightarrow> st = ''completed'')
           \<and> (err \<noteq> None \<longrightarrow> st = ''failed'')
           \<and> (st = ''completed'' \<longrightarrow> res \<noteq> None \<and> err = None)
           \<and> (st = ''failed'' \<longrightarrow> err \<noteq> None \<and> res = None)"
    if "writes (snd (snd ?run)) = writes db @ [UpdateProcess pid ''failed'' (Some m) None]" for m
    using that
    by (intro exI [of _ "''failed''"] exI [of _ "Some m"] exI [of _ None]) simp
  have completed: "\<exists>st err res. writes (snd (snd ?run)) = writes db @ [UpdateProcess pid st err res]
           \<and> (st = ''completed'' \<or> st = ''failed'')
           \<and> (res \<noteq> None \<longrightarrow> st = ''completed'')
           \<and> (err \<noteq> None \<longrightarrow> st = ''failed'')
           \<and> (st = ''completed'' \<longrightarrow> res \<noteq> None \<and> err = None)
           \<and> (st = ''failed'' \<longrightarrow> err \<noteq> None \<and> res = None)"
    if "writes (snd (snd ?run)) = writes db @ [UpdateProcess pid ''completed'' None (Some s)]" for s
    using that
    by (intro exI [of _ "''completed''"] exI [of _ None] exI [of _ "Some s"]) simp
  have caught: "writes (snd (snd ?run))
                  = writes db @ [UpdateProcess pid ''failed'' (Some (exception_str e)) None]"
    if run: "?run = (fst (background_except fault pid e db), w',
                     snd (background_except fault pid e db))" for e w'
  proof -
    have "is_Exception e"
    proof (rule ccontr)
      assume "\<not> is_Exception e"
      then have "fst ?run = Inl e"
        by (simp add: run except_not_caught)
      with ret show False by simp
    qed
    then show ?thesis
      by (simp add: run except_writes)
  qed
  obtain r w' where r: "process_transcript tp (req_text t) (req_model t) (req_model_name t)
             (req_chunk_size t) (req_overlap t) (req_custom_prompt t) w = (r, w')"
    by (cases "process_transcript tp (req_text t) (req_model t) (req_model_name t)
             (req_chunk_size t) (req_overlap t) (req_custom_prompt t) w")
  show "\<exists>st err res. writes (snd (snd ?run)) = writes db @ [UpdateProcess pid st err res]
           \<and> (st = ''completed'' \<or> st = ''failed'')
           \<and> (res \<noteq> None \<longrightarrow> st = ''completed'')
           \<and> (err \<noteq> None \<longrightarrow> st = ''failed'')
           \<and> (st = ''completed'' \<longrightarrow> res \<noteq> None \<and> err = None)
           \<and> (st = ''failed'' \<longrightarrow> err \<noteq> None \<and> res = None)"
  proof (cases r)
    case (Inl e)
    with r have "?run = (fst (background_except fault pid e db), w',
                     snd (background_except fault pid e db))"
      by (intro background_raised) simp
    then have "writes (snd (snd ?run))
                  = writes db @ [UpdateProcess pid ''failed'' (Some (exception_str e)) None]"
      by (rule caught)
    then show ?thesis by (rule failed)
  next
    case (Inr p)
    obtain n d where p: "p = (n, d)" by (cases p)
    from r Inr p have pt: "process_transcript tp (req_text t) (req_model t) (req_model_name t)
             (req_chunk_size t) (req_overlap t) (req_custom_prompt t) w = (Inr (n, d), w')"
      by simp
    show ?thesis
    proof (cases "d = []")
      case True
      with pt have pt0: "process_transcript tp (req_text t) (req_model t)
             (req_model_name t) (req_chunk_size t) (req_overlap t) (req_custom_prompt t) w
             = (Inr (n, []), w')"
        by simp
      have "?run = (Inr (), w',
                update_process pid ''failed'' (Some ''No chunks processed'') None db)"
        by (rule background_empty
            [where fault = fault and db = db and json_dumps = json_dumps and tp = tp,
             OF pt0 nofault])
      then have "writes (snd (snd ?run))
                  = writes db @ [UpdateProcess pid ''failed'' (Some ''No chunks processed'') None]"
        by (simp add: writes_update)
      then show ?thesis by (rule failed)
    next
      case False
      show ?thesis
      proof (cases "json_dumps d")
        case (Inl e)
        have "?run = (fst (background_except fault pid e db), w',
                     snd (background_except fault pid e db))"
          by (rule background_dumps_raised
              [where json_dumps = json_dumps and tp = tp, OF pt False Inl])
        then have "writes (snd (snd ?run))
                  = writes db @ [UpdateProcess pid ''failed'' (Some (exception_str e)) None]"
      by (rule caught)
    then show ?thesis by (rule failed)
      next
        case (Inr s)
        have "?run = (Inr (), w', update_process pid ''completed'' None (Some s) db)"
          by (rule background_completed
              [where fault = fault and db = db and json_dumps = json_dumps and tp = tp,
               OF pt False Inr nofault])
        then have "writes (snd (snd ?run))
                  = writes db @ [UpdateProcess pid ''completed'' None (Some s)]"
          by (simp add: writes_update)
        then show ?thesis by (rule completed)
      qed
    qed
  qed
qed

theorem terminal_update_fields_witness:
  "(\<forall>call s. reliable call s = None)
   \<and> fst (process_transcript_background reliable echo_processor example_dumps ''m1''
       example_request (0, pending_db)) = Inr ()
   \<and> writes (snd (snd (process_transcript_background reliable echo_processor example_dumps ''m1''
       example_request (0, pending_db))))
     = writes pending_db @ [UpdateProcess ''m1'' ''completed'' None (Some ''j'')]
   \<and> writes (snd (snd (process_transcript_background store_down echo_processor example_dumps
       ''m1'' example_request (0, pending_db))))
     = writes pending_db @ [UpdateProcess ''m1'' ''completed'' None (Some ''j''),
          UpdateProcess ''m1'' ''failed'' (Some ''database is locked'') None]"
proof -
  have r: "\<forall>call s. reliable call s = None"
    by (simp add: reliable_def)
  have f: "fst (process_transcript_background reliable echo_processor example_dumps ''m1''
       example_request (0, pending_db)) = Inr ()"
    by (simp add: process_transcript_background_def process_transcript_def example_request_def
        echo_processor_def example_dumps_def py_strip_def py_isspace_def db_update_process_def
        reliable_def)
  have a: "writes (snd (snd (process_transcript_background reliable echo_processor example_dumps
       ''m1'' example_request (0, pending_db))))
     = writes pending_db @ [UpdateProcess ''m1'' ''completed'' None (Some ''j'')]"
    using terminal_update_fields
      [of reliable echo_processor example_dumps "''m1''" example_request 0 pending_db] r f
    by (simp add: process_transcript_background_def process_transcript_def example_request_def
        echo_processor_def example_dumps_def py_strip_def py_isspace_def db_update_process_def
        reliable_def writes_update)
  have b: "writes (snd (snd (process_transcript_background store_down echo_processor example_dumps
       ''m1'' example_request (0, pending_db))))
     = writes pending_db @ [UpdateProcess ''m1'' ''completed'' None (Some ''j''),
          UpdateProcess ''m1'' ''failed'' (Some ''database is locked'') None]"
    using terminal_update_fields
      [of store_down echo_processor example_dumps "''m1''" example_request 0 pending_db]
    by (simp add: process_transcript_background_def process_transcript_def example_request_def
        echo_processor_def example_dumps_def py_strip_def py_isspace_def db_update_process_def
        background_except_def store_down_def)
  from r f a b show ?thesis by simp
qed


section \<open>Properties of the submission\<close>

lemma api_response:
  "fst (process_transcript_api t (db, tasks))
     = \<lparr>resp_message = ''Processing started'', resp_process_id = req_meeting_id t\<rparr>"
  by (simp add: process_transcript_api_def create_process_def)

lemma api_rows:
  "summary_processes (fst (snd (process_transcript_api t (db, tasks))))
     = upsert_process
         \<lparr>sp_meeting_id = req_meeting_id t, sp_status = ''pending'', sp_error = None,
          sp_result = None\<rparr> (summary_processes db)"
  by (simp add: process_transcript_api_def create_process_def save_transcript_def)

lemma api_tasks:
  "snd (snd (process_transcript_api t (db, tasks))) = tasks @ [(req_meeting_id t, t)]"
  by (simp add: process_transcript_api_def create_process_def)

lemma api_job_pending:
  "find_process (req_meeting_id t)
       (summary_processes (fst (snd (process_transcript_api t (db, tasks)))))
     = Some \<lparr>sp_meeting_id = req_meeting_id t, sp_status = ''pending'', sp_error = None,
             sp_result = None\<rparr>"
  by (simp add: api_rows find_process_upsert)

lemma find_upsert_transcript:
  "find (\<lambda>r. tc_meeting_id r = tc_meeting_id row) (upsert_transcript row rows) = Some row"
  by (induction rows) auto

lemma api_writes:
  "writes (fst (snd (process_transcript_api t (db, tasks))))
     = writes db
         @ [CreateProcess (req_meeting_id t),
            SaveTranscript (req_meeting_id t) (req_text t) (req_model t) (req_model_name t)
              (req_chunk_size t) (req_overlap t)]"
  by (simp add: process_transcript_api_def create_process_def save_transcript_def)

lemma api_transcript_saved:
  "find (\<lambda>r. tc_meeting_id r = req_meeting_id t)
       (transcript_chunks (fst (snd (process_transcript_api t (db, tasks)))))
     = Some \<lparr>tc_meeting_id = req_meeting_id t, tc_transcript_text = req_text t,
             tc_model = req_model t, tc_model_name = req_model_name t,
             tc_chunk_size = req_chunk_size t, tc_overlap = req_overlap t\<rparr>"
proof -
  let ?row = "\<lparr>tc_meeting_id = req_meeting_id t, tc_transcript_text = req_text t,
             tc_model = req_model t, tc_model_name = req_model_name t,
             tc_chunk_size = req_chunk_size t, tc_overlap = req_overlap t\<rparr>"
  have "transcript_chunks (fst (snd (process_transcript_api t (db, tasks))))
          = upsert_transcript ?row (transcript_chunks db)"
    by (simp add: process_transcript_api_def create_process_def save_transcript_def)
  moreover have "find (\<lambda>r. tc_meeting_id r = tc_meeting_id ?row)
                   (upsert_transcript ?row (transcript_chunks db)) = Some ?row"
    by (rule find_upsert_transcript)
  ultimately show ?thesis by simp
qed

lemma background_raised_job:
  assumes "process_transcript tp (req_text t) (req_model t) (req_model_name t)
             (req_chunk_size t) (req_overlap t) (req_custom_prompt t) w = (Inl e, w)"
    and "is_Exception e"
    and "fault (UpdateProcess pid ''failed'' (Some (exception_str e)) None) db = None"
    and "find_process pid (summary_processes db)
           = Some \<lparr>sp_meeting_id = pid, sp_status = ''pending'', sp_error = None,
                   sp_result = None\<rparr>"
  shows "process_transcript_background fault tp json_dumps pid t (w, db)
           = (Inr (), w, update_process pid ''failed'' (Some (exception_str e)) None db)
         \<and> find_process pid (summary_processes
               (update_process pid ''failed'' (Some (exception_str e)) None db))
             = Some \<lparr>sp_meeting_id = pid, sp_status = ''failed'',
                     sp_error = Some (exception_str e), sp_result = None\<rparr>"
proof
  have "background_except fault pid e db
          = (Inr (), update_process pid ''failed'' (Some (exception_str e)) None db)"
    using assms(2,3) by (rule except_caught)
  then show "process_transcript_background fault tp json_dumps pid t (w, db)
           = (Inr (), w, update_process pid ''failed'' (Some (exception_str e)) None db)"
    by (simp add: background_raised [OF assms(1)])
  show "find_process pid (summary_processes
               (update_process pid ''failed'' (Some (exception_str e)) None db))
             = Some \<lparr>sp_meeting_id = pid, sp_status = ''failed'',
                     sp_error = Some (exception_str e), sp_result = None\<rparr>"
    by (simp add: find_process_update assms(4))
qed

text \<open>
  Claim C3, as stated: an invalid submission (empty text or non-positive chunk size) is
  answered with the validation error, and no job record exists afterwards. It is not so:
  the submission with an empty text and the chunk size 0, on an empty store, is answered
  with "Processing started" and the process identifier, and the store then holds a
  pending job record for the meeting.
\<close>

theorem invalid_submission_rejected_counterexample:
  "blank (req_text invalid_request) \<and> req_chunk_size invalid_request = Some 0
   \<and> fst (process_transcript_api invalid_request (empty_db, []))
       = \<lparr>resp_message = ''Processing started'', resp_process_id = ''m1''\<rparr>
   \<and> find_process ''m1''
        (summary_processes (fst (snd (process_transcript_api invalid_request (empty_db, [])))))
       = Some \<lparr>sp_meeting_id = ''m1'', sp_status = ''pending'', sp_error = None,
               sp_result = None\<rparr>"
  by (simp add: invalid_request_def example_request_def blank_def process_transcript_api_def
      create_process_def save_transcript_def empty_db_def find_process_def)

text \<open>
  Claim C3, amended. The submit path validates nothing: for every submission, valid or
  not, it creates the pending job record of the meeting, saves the transcript with its
  parameters, schedules the background run and answers "Processing started" with the
  process identifier; these are its two writes. The validation is part of the background
  run: there a blank text is recorded on that job as \<open>failed\<close> with the error
  "Transcript text is empty", and a non-positive chunk size (the text not being blank)
  as \<open>failed\<close> with the error "Invalid chunk_size or overlap", when the store performs
  the update; the task then returns normally.
\<close>

theorem submission_validated_in_background:
  "fst (process_transcript_api t (db, tasks))
       = \<lparr>resp_message = ''Processing started'', resp_process_id = req_meeting_id t\<rparr>
   \<and> find_process (req_meeting_id t)
        (summary_processes (fst (snd (process_transcript_api t (db, tasks)))))
       = Some \<lparr>sp_meeting_id = req_meeting_id t, sp_status = ''pending'', sp_error = None,
               sp_result = None\<rparr>
   \<and> find (\<lambda>r. tc_meeting_id r = req_meeting_id t)
        (transcript_chunks (fst (snd (process_transcript_api t (db, tasks)))))
       = Some \<lparr>tc_meeting_id = req_meeting_id t, tc_transcript_text = req_text t,
               tc_model = req_model t, tc_model_name = req_model_name t,
               tc_chunk_size = req_chunk_size t, tc_overlap = req_overlap t\<rparr>
   \<and> writes (fst (snd (process_transcript_api t (db, tasks))))
       = writes db
           @ [CreateProcess (req_meeting_id t),
              SaveTranscript (req_meeting_id t) (req_text t) (req_model t) (req_model_name t)
                (req_chunk_size t) (req_overlap t)]
   \<and> snd (snd (process_transcript_api t (db, tasks))) = tasks @ [(req_meeting_id t, t)]
   \<and> (blank (req_text t)
        \<and> fault (UpdateProcess (req_meeting_id t) ''failed'' (Some ''Transcript text is empty'')
                   None) (fst (snd (process_transcript_api t (db, tasks)))) = None \<longrightarrow>
        fst (process_transcript_background fault tp json_dumps (req_meeting_id t) t
               (w, fst (snd (process_transcript_api t (db, tasks))))) = Inr ()
        \<and> find_process (req_meeting_id t) (summary_processes (snd (snd
             (process_transcript_background fault tp json_dumps (req_meeting_id t) t
                (w, fst (snd (process_transcript_api t (db, tasks))))))))
           = Some \<lparr>sp_meeting_id = req_meeting_id t, sp_status = ''failed'',
                   sp_error = Some ''Transcript text is empty'', sp_result = None\<rparr>)
   \<and> (\<not> blank (req_text t) \<and> req_chunk_size t = Some cs \<and> cs \<le> 0
        \<and> fault (UpdateProcess (req_meeting_id t) ''failed''
                   (Some ''Invalid chunk_size or overlap'') None)
             (fst (snd (process_transcript_api t (db, tasks)))) = None \<longrightarrow>
        fst (process_transcript_background fault tp json_dumps (req_meeting_id t) t
               (w, fst (snd (process_transcript_api t (db, tasks))))) = Inr ()
        \<and> find_process (req_meeting_id t) (summary_processes (snd (snd
             (process_transcript_background fault tp json_dumps (req_meeting_id t) t
                (w, fst (snd (process_transcript_api t (db, tasks))))))))
           = Some \<lparr>sp_meeting_id = req_meeting_id t, sp_status = ''failed'',
                   sp_error = Some ''Invalid chunk_size or overlap'', sp_result = None\<rparr>)"
proof -
  let ?db1 = "fst (snd (process_transcript_api t (db, tasks)))"
  let ?m = "req_meeting_id t"
  have recorded: "fst (process_transcript_background fault tp json_dumps ?m t (w, ?db1)) = Inr ()
        \<and> find_process ?m (summary_processes (snd (snd
             (process_transcript_background fault tp json_dumps ?m t (w, ?db1)))))
           = Some \<lparr>sp_meeting_id = ?m, sp_status = ''failed'', sp_error = Some msg,
                   sp_result = None\<rparr>"
    if raised: "process_transcript tp (req_text t) (req_model t) (req_model_name t)
             (req_chunk_size t) (req_overlap t) (req_custom_prompt t) w
           = (Inl (ValueError msg), w)"
      and accepted: "fault (UpdateProcess ?m ''failed'' (Some msg) None) ?db1 = None" for msg
  proof -
    have e: "is_Exception (ValueError msg)"
      by simp
    have a: "fault (UpdateProcess ?m ''failed'' (Some (exception_str (ValueError msg))) None)
               ?db1 = None"
      using accepted by simp
    from background_raised_job
           [where fault = fault and tp = tp and json_dumps = json_dumps and db = ?db1,
            OF raised e a api_job_pending]
    show ?thesis by simp
  qed
  show ?thesis
  proof (intro conjI impI)
    show "fst (process_transcript_api t (db, tasks))
       = \<lparr>resp_message = ''Processing started'', resp_process_id = ?m\<rparr>"
      by (rule api_response)
    show "find_process ?m (summary_processes ?db1)
       = Some \<lparr>sp_meeting_id = ?m, sp_status = ''pending'', sp_error = None,
               sp_result = None\<rparr>"
      by (rule api_job_pending)
    show "find (\<lambda>r. tc_meeting_id r = ?m) (transcript_chunks ?db1)
       = Some \<lparr>tc_meeting_id = ?m, tc_transcript_text = req_text t,
               tc_model = req_model t, tc_model_name = req_model_name t,
               tc_chunk_size = req_chunk_size t, tc_overlap = req_overlap t\<rparr>"
      by (rule api_transcript_saved)
    show "writes ?db1
       = writes db
           @ [CreateProcess ?m,
              SaveTranscript ?m (req_text t) (req_model t) (req_model_name t)
                (req_chunk_size t) (req_overlap t)]"
      by (rule api_writes)
    show "snd (snd (process_transcript_api t (db, tasks))) = tasks @ [(?m, t)]"
      by (rule api_tasks)
  next
    assume h: "blank (req_text t)
        \<and> fault (UpdateProcess ?m ''failed'' (Some ''Transcript text is empty'') None) ?db1
            = None"
    then have "process_transcript tp (req_text t) (req_model t) (req_model_name t)
             (req_chunk_size t) (req_overlap t) (req_custom_prompt t) w
           = (Inl (ValueError ''Transcript text is empty''), w)"
      by (simp add: process_transcript_def py_strip_empty_iff)
    from recorded [OF this] h
    show "fst (process_transcript_background fault tp json_dumps ?m t (w, ?db1)) = Inr ()"
      and "find_process ?m (summary_processes (snd (snd
             (process_transcript_background fault tp json_dumps ?m t (w, ?db1)))))
           = Some \<lparr>sp_meeting_id = ?m, sp_status = ''failed'',
                   sp_error = Some ''Transcript text is empty'', sp_result = None\<rparr>"
      by simp_all
  next
    assume h: "\<not> blank (req_text t) \<and> req_chunk_size t = Some cs \<and> cs \<le> 0
        \<and> fault (UpdateProcess ?m ''failed'' (Some ''Invalid chunk_size or overlap'') None)
             ?db1 = None"
    then have "process_transcript tp (req_text t) (req_model t) (req_model_name t)
             (req_chunk_size t) (req_overlap t) (req_custom_prompt t) w
           = (Inl (ValueError ''Invalid chunk_size or overlap''), w)"
      by (simp add: process_transcript_def py_strip_empty_iff)
    from recorded [OF this] h
    show "fst (process_transcript_background fault tp json_dumps ?m t (w, ?db1)) = Inr ()"
      and "find_process ?m (summary_processes (snd (snd
             (process_transcript_background fault tp json_dumps ?m t (w, ?db1)))))
           = Some \<lparr>sp_meeting_id = ?m, sp_status = ''failed'',
                   sp_error = Some ''Invalid chunk_size or overlap'', sp_result = None\<rparr>"
      by simp_all
  qed
qed

theorem submission_validated_in_background_witness:
  "blank (req_text invalid_request)
   \<and> reliable (UpdateProcess ''m1'' ''failed'' (Some ''Transcript text is empty'') None)
        (fst (snd (process_transcript_api invalid_request (empty_db, [])))) = None
   \<and> find_process ''m1'' (summary_processes (snd (snd
        (process_transcript_background reliable echo_processor example_dumps ''m1''
           invalid_request
           (0, fst (snd (process_transcript_api invalid_request (empty_db, []))))))))
      = Some \<lparr>sp_meeting_id = ''m1'', sp_status = ''failed'',
              sp_error = Some ''Transcript text is empty'', sp_result = None\<rparr>
   \<and> \<not> blank (req_text (example_request\<lparr>req_chunk_size := Some 0\<rparr>))
   \<and> (0::int) \<le> 0
   \<and> reliable (UpdateProcess ''m1'' ''failed'' (Some ''Invalid chunk_size or overlap'') None)
        (fst (snd (process_transcript_api (example_request\<lparr>req_chunk_size := Some 0\<rparr>)
              (empty_db, [])))) = None
   \<and> find_process ''m1'' (summary_processes (snd (snd
        (process_transcript_background reliable echo_processor example_dumps ''m1''
           (example_request\<lparr>req_chunk_size := Some 0\<rparr>)
           (0, fst (snd (process_transcript_api (example_request\<lparr>req_chunk_size := Some 0\<rparr>)
                 (empty_db, []))))))))
      = Some \<lparr>sp_meeting_id = ''m1'', sp_status = ''failed'',
              sp_error = Some ''Invalid chunk_size or overlap'', sp_result = None\<rparr>"
proof -
  let ?t2 = "example_request\<lparr>req_chunk_size := Some 0\<rparr>"
  have b1: "blank (req_text invalid_request)"
    by (simp add: invalid_request_def blank_def)
  have m1: "req_meeting_id invalid_request = ''m1''"
    by (simp add: invalid_request_def example_request_def)
  have b2: "\<not> blank (req_text ?t2)"
    by (simp add: example_request_def blank_def py_isspace_def)
  have c2: "req_chunk_size ?t2 = Some 0"
    by simp
  have m2: "req_meeting_id ?t2 = ''m1''"
    by (simp add: example_request_def)
  have f: "reliable call s = None" for call s
    by (simp add: reliable_def)
  note t1 = submission_validated_in_background
      [where t = invalid_request and db = empty_db and tasks = "[]" and fault = reliable
         and tp = echo_processor and json_dumps = example_dumps and w = 0 and cs = 0]
  note t2 = submission_validated_in_background
      [where t = ?t2 and db = empty_db and tasks = "[]" and fault = reliable
         and tp = echo_processor and json_dumps = example_dumps and w = 0 and cs = 0]
  from t1 b1 f have r1: "find_process (req_meeting_id invalid_request) (summary_processes (snd (snd
        (process_transcript_background reliable echo_processor example_dumps
           (req_meeting_id invalid_request) invalid_request
           (0, fst (snd (process_transcript_api invalid_request (empty_db, []))))))))
      = Some \<lparr>sp_meeting_id = req_meeting_id invalid_request, sp_status = ''failed'',
              sp_error = Some ''Transcript text is empty'', sp_result = None\<rparr>"
    by blast
  from t2 b2 c2 f have r2: "find_process (req_meeting_id ?t2)
       (summary_processes (snd (snd
        (process_transcript_background reliable echo_processor example_dumps
           (req_meeting_id ?t2) ?t2
           (0, fst (snd (process_transcript_api ?t2 (empty_db, []))))))))
      = Some \<lparr>sp_meeting_id = req_meeting_id ?t2, sp_status = ''failed'',
              sp_error = Some ''Invalid chunk_size or overlap'', sp_result = None\<rparr>"
    by simp
  from b1 b2 r1 r2 f show ?thesis
    unfolding m1 m2 by simp
qed

lemma completed_db_rows:
  "summary_processes completed_db
     = [\<lparr>sp_meeting_id = ''m1'', sp_status = ''completed'', sp_error = None,
         sp_result = Some ''j''\<rparr>]"
  by (simp add: completed_db_def process_transcript_background_def process_transcript_def
      process_transcript_api_def create_process_def save_transcript_def update_process_def
      db_update_process_def reliable_def empty_db_def example_request_def echo_processor_def
      example_dumps_def py_strip_def py_isspace_def)

text \<open>
  Claim C8. In a store that has at most one job record for a meeting (the primary key
  of \<open>summary_processes\<close>), a submission leaves it so: afterwards the records of the
  submitted meeting are exactly one, the fresh pending one, whatever state a prior job
  of that meeting had; when the meeting had a job, the number of records is unchanged,
  so that no second job has come to be; the jobs of the other meetings are untouched.
\<close>

theorem one_job_per_meeting:
  assumes "distinct (map sp_meeting_id (summary_processes db))"
  shows "distinct (map sp_meeting_id
            (summary_processes (fst (snd (process_transcript_api t (db, tasks))))))
         \<and> filter (\<lambda>r. sp_meeting_id r = req_meeting_id t)
              (summary_processes (fst (snd (process_transcript_api t (db, tasks)))))
             = [\<lparr>sp_meeting_id = req_meeting_id t, sp_status = ''pending'', sp_error = None,
                 sp_result = None\<rparr>]
         \<and> (req_meeting_id t \<in> sp_meeting_id ` set (summary_processes db) \<longrightarrow>
               length (summary_processes (fst (snd (process_transcript_api t (db, tasks)))))
                 = length (summary_processes db))
         \<and> (\<forall>m. m \<noteq> req_meeting_id t \<longrightarrow>
               find_process m (summary_processes (fst (snd (process_transcript_api t (db, tasks)))))
                 = find_process m (summary_processes db))"
proof -
  let ?row = "\<lparr>sp_meeting_id = req_meeting_id t, sp_status = ''pending'', sp_error = None,
               sp_result = None\<rparr>"
  have id: "sp_meeting_id ?row = req_meeting_id t"
    by simp
  have rows: "summary_processes (fst (snd (process_transcript_api t (db, tasks))))
              = upsert_process ?row (summary_processes db)"
    by (rule api_rows)
  have "distinct (map sp_meeting_id (upsert_process ?row (summary_processes db)))"
    using assms by (rule distinct_upsert)
  moreover have "filter (\<lambda>r. sp_meeting_id r = req_meeting_id t)
                   (upsert_process ?row (summary_processes db)) = [?row]"
    using filter_upsert [OF assms, of ?row] by (simp only: id)
  moreover have "req_meeting_id t \<in> sp_meeting_id ` set (summary_processes db) \<longrightarrow>
                   length (upsert_process ?row (summary_processes db))
                     = length (summary_processes db)"
    using length_upsert [of ?row "summary_processes db"] by (simp only: id) blast
  moreover have "\<forall>m. m \<noteq> req_meeting_id t \<longrightarrow>
                   find_process m (upsert_process ?row (summary_processes db))
                     = find_process m (summary_processes db)"
    by (simp add: find_process_upsert)
  ultimately show ?thesis
    unfolding rows by blast
qed

theorem one_job_per_meeting_witness:
  "distinct (map sp_meeting_id (summary_processes completed_db))
   \<and> ''m1'' \<in> sp_meeting_id ` set (summary_processes completed_db)
   \<and> find_process ''m1'' (summary_processes completed_db)
       = Some \<lparr>sp_meeting_id = ''m1'', sp_status = ''completed'', sp_error = None,
               sp_result = Some ''j''\<rparr>
   \<and> filter (\<lambda>r. sp_meeting_id r = ''m1'')
        (summary_processes (fst (snd (process_transcript_api example_request (completed_db, [])))))
       = [\<lparr>sp_meeting_id = ''m1'', sp_status = ''pending'', sp_error = None, sp_result = None\<rparr>]
   \<and> length (summary_processes (fst (snd (process_transcript_api example_request (completed_db, [])))))
       = 1"
proof -
  have d: "distinct (map sp_meeting_id (summary_processes completed_db))"
    by (simp add: completed_db_rows)
  have m: "req_meeting_id example_request = ''m1''"
    by (simp add: example_request_def)
  have i: "''m1'' \<in> sp_meeting_id ` set (summary_processes completed_db)"
    by (simp add: completed_db_rows)
  have f: "find_process ''m1'' (summary_processes completed_db)
       = Some \<lparr>sp_meeting_id = ''m1'', sp_status = ''completed'', sp_error = None,
               sp_result = Some ''j''\<rparr>"
    by (simp add: completed_db_rows find_process_def)
  have l: "length (summary_processes completed_db) = 1"
    by (simp add: completed_db_rows)
  from one_job_per_meeting [OF d, of example_request "[]"] d i f l show ?thesis
    unfolding m by simp
qed

section \<open>Properties of the status read\<close>

text \<open>
  Claim C9, as stated: for an identifier with a record \<open>get_summary\<close> returns the stored
  status and result. It does not always. A job stored with the status \<open>PENDING\<close> is
  returned with the status \<open>pending\<close>, which is not the stored word. A job stored with
  the result \<open>[NaN]\<close>, which \<open>json.loads\<close> decodes, is not returned at all: rendering the
  response raises.
\<close>

theorem stored_status_and_result_returned_counterexample:
  "find_process ''m1'' (summary_processes upper_case_db)
     = Some \<lparr>sp_meeting_id = ''m1'', sp_status = ''PENDING'', sp_error = None,
             sp_result = None\<rparr>
   \<and> get_summary nan_loads strict_render_error ''m1'' upper_case_db
     = (Inr \<lparr>sum_status = ''pending'', sum_meeting_id = ''m1'', sum_data = None\<rparr>,
        upper_case_db)
   \<and> ''pending'' \<noteq> ''PENDING''
   \<and> find_process ''m1'' (summary_processes nan_db)
     = Some \<lparr>sp_meeting_id = ''m1'', sp_status = ''completed'', sp_error = None,
             sp_result = Some ''[NaN]''\<rparr>
   \<and> nan_loads ''[NaN]'' = Inr JNaN
   \<and> get_summary nan_loads strict_render_error ''m1'' nan_db
     = (Inl (Unhandled (ValueError ''Out of range float values are not JSON compliant'')),
        nan_db)"
  by (simp add: upper_case_db_def nan_db_def find_process_def get_summary_def
      get_transcript_data_def row_dict_def py_lower_def py_lower_char_def nan_loads_def
      strict_render_error_def)

text \<open>
  Claim C9, amended. For an identifier without a job record \<open>get_summary\<close> raises
  \<open>HTTPException(404, "Meeting ID not found")\<close> and returns no data. For an identifier
  with a record it returns the stored status in lower case, which is the stored word
  itself for each of the status words \<open>pending\<close>, \<open>processing\<close>, \<open>completed\<close> and
  \<open>failed\<close>, and as data the stored result as \<open>json.loads\<close> decodes it, provided that
  the result decodes and the data renders as strict JSON; no data when the result is
  \<open>NULL\<close> or empty. In every case the store is as it was.
\<close>

theorem get_summary_not_found_or_stored:
  "(m \<notin> sp_meeting_id ` set (summary_processes db) \<longrightarrow>
      get_summary json_loads render_error m db
        = (Inl (HTTPException 404 ''Meeting ID not found''), db))
   \<and> (find_process m (summary_processes db) = Some row \<and> sp_result row = Some r \<and> r \<noteq> []
        \<and> json_loads r = Inr data \<and> render_error data = None \<longrightarrow>
      get_summary json_loads render_error m db
        = (Inr \<lparr>sum_status = py_lower (sp_status row), sum_meeting_id = m,
                sum_data = Some data\<rparr>, db))
   \<and> (find_process m (summary_processes db) = Some row
        \<and> (sp_result row = None \<or> sp_result row = Some []) \<longrightarrow>
      get_summary json_loads render_error m db
        = (Inr \<lparr>sum_status = py_lower (sp_status row), sum_meeting_id = m,
                sum_data = None\<rparr>, db))
   \<and> (sp_status row \<in> {''pending'', ''processing'', ''completed'', ''failed''} \<longrightarrow>
        py_lower (sp_status row) = sp_status row)
   \<and> snd (get_summary json_loads render_error m db) = db"
proof (intro conjI impI)
  assume "m \<notin> sp_meeting_id ` set (summary_processes db)"
  then have "find_process m (summary_processes db) = None"
    by (auto simp: find_process_def find_None_iff)
  then show "get_summary json_loads render_error m db
               = (Inl (HTTPException 404 ''Meeting ID not found''), db)"
    by (simp add: get_summary_def get_transcript_data_def)
next
  assume "find_process m (summary_processes db) = Some row \<and> sp_result row = Some r \<and> r \<noteq> []
        \<and> json_loads r = Inr data \<and> render_error data = None"
  then show "get_summary json_loads render_error m db
        = (Inr \<lparr>sum_status = py_lower (sp_status row), sum_meeting_id = m,
                sum_data = Some data\<rparr>, db)"
    by (simp add: get_summary_def get_transcript_data_def row_dict_def)
next
  assume "find_process m (summary_processes db) = Some row
        \<and> (sp_result row = None \<or> sp_result row = Some [])"
  then show "get_summary json_loads render_error m db
        = (Inr \<lparr>sum_status = py_lower (sp_status row), sum_meeting_id = m,
                sum_data = None\<rparr>, db)"
    by (auto simp: get_summary_def get_transcript_data_def row_dict_def)
next
  assume "sp_status row \<in> {''pending'', ''processing'', ''completed'', ''failed''}"
  then show "py_lower (sp_status row) = sp_status row"
    by (auto simp: py_lower_def py_lower_char_def)
next
  show "snd (get_summary json_loads render_error m db) = db"
    by (simp add: get_summary_def Let_def split: option.splits sum.splits)
qed

theorem get_summary_not_found_or_stored_witness:
  "''m2'' \<notin> sp_meeting_id ` set (summary_processes completed_db)
   \<and> get_summary nan_loads strict_render_error ''m2'' completed_db
       = (Inl (HTTPException 404 ''Meeting ID not found''), completed_db)
   \<and> find_process ''m1'' (summary_processes completed_db)
       = Some \<lparr>sp_meeting_id = ''m1'', sp_status = ''completed'', sp_error = None,
               sp_result = Some ''j''\<rparr>
   \<and> nan_loads ''j'' = Inr (JNumbers 1)
   \<and> strict_render_error (JNumbers 1) = None
   \<and> get_summary nan_loads strict_render_error ''m1'' completed_db
       = (Inr \<lparr>sum_status = ''completed'', sum_meeting_id = ''m1'',
               sum_data = Some (JNumbers 1)\<rparr>, completed_db)
   \<and> find_process ''m1'' (summary_processes pending_db)
       = Some \<lparr>sp_meeting_id = ''m1'', sp_status = ''pending'', sp_error = None,
               sp_result = None\<rparr>
   \<and> get_summary nan_loads strict_render_error ''m1'' pending_db
       = (Inr \<lparr>sum_status = ''pending'', sum_meeting_id = ''m1'', sum_data = None\<rparr>,
          pending_db)"
proof -
  let ?done = "\<lparr>sp_meeting_id = ''m1'', sp_status = ''completed'', sp_error = None,
               sp_result = Some ''j''\<rparr>"
  let ?pend = "\<lparr>sp_meeting_id = ''m1'', sp_status = ''pending'', sp_error = None,
               sp_result = None\<rparr>"
  have n: "''m2'' \<notin> sp_meeting_id ` set (summary_processes completed_db)"
    by (simp add: completed_db_rows)
  have f: "find_process ''m1'' (summary_processes completed_db) = Some ?done"
    by (simp add: completed_db_rows find_process_def)
  have l: "nan_loads ''j'' = Inr (JNumbers 1)"
    by (simp add: nan_loads_def)
  have s: "strict_render_error (JNumbers 1) = None"
    by (simp add: strict_render_error_def)
  have p: "find_process ''m1'' (summary_processes pending_db) = Some ?pend"
    by (simp add: pending_db_def create_process_def empty_db_def find_process_def)
  note t1 = get_summary_not_found_or_stored
      [of "''m2''" completed_db nan_loads strict_render_error ?done "''j''" "JNumbers 1"]
  note t2 = get_summary_not_found_or_stored
      [of "''m1''" completed_db nan_loads strict_render_error ?done "''j''" "JNumbers 1"]
  note t3 = get_summary_not_found_or_stored
      [of "''m1''" pending_db nan_loads strict_render_error ?pend "''j''" "JNumbers 1"]
  from t1 n have r1: "get_summary nan_loads strict_render_error ''m2'' completed_db
       = (Inl (HTTPException 404 ''Meeting ID not found''), completed_db)"
    by blast
  from t2 f l s have r2: "get_summary nan_loads strict_render_error ''m1'' completed_db
       = (Inr \<lparr>sum_status = ''completed'', sum_meeting_id = ''m1'',
               sum_data = Some (JNumbers 1)\<rparr>, completed_db)"
    by simp
  from t3 p have r3: "get_summary nan_loads strict_render_error ''m1'' pending_db
       = (Inr \<lparr>sum_status = ''pending'', sum_meeting_id = ''m1'', sum_data = None\<rparr>,
          pending_db)"
    by simp
  from n f l s p r1 r2 r3 show ?thesis by simp
qed

section \<open>Properties of the transactions\<close>









end
